theory Spec2Isabelle
  imports Main "HOL-Library.Sublist" "HOL-Library.AList"
begin

section \<open>The WhatsApp statement bot (index.js) as HOL functions\<close>

text \<open>
  The bot receives a chat message, stores a request document, looks the sender up in the
  PartyCode collection, checks the latest Statement for a ReportSection of that party, asks
  the rendering service for a PDF and replies with it.  Every function of index.js below
  keeps its name.  A JavaScript \<^verbatim>\<open>Error\<close> is modelled by its message, an
  \<^verbatim>\<open>async\<close> function by a state transformer that returns either the message of the
  error it throws (\<open>Inl\<close>) or its value (\<open>Inr\<close>).  Console output does not influence
  control flow and is left out.
\<close>

subsection \<open>Strings\<close>

definition backslash :: char where
  "backslash = CHR 0x5C"

text \<open>The class \<^verbatim>\<open>\d\<close> of a JavaScript regular expression: the ten ASCII digits.\<close>

definition isDigit :: "char \<Rightarrow> bool" where
  "isDigit c \<longleftrightarrow> c \<in> set ''0123456789''"

text \<open>\<^verbatim>\<open>sender.replace(/\D/g, '')\<close>: every character that is not a digit is removed.\<close>

definition removeNonDigits :: "string \<Rightarrow> string" where
  "removeNonDigits s = filter isDigit s"

definition isWhiteSpace :: "char \<Rightarrow> bool" where
  "isWhiteSpace c \<longleftrightarrow> c \<in> set [CHR 0x09, CHR 0x0A, CHR 0x0B, CHR 0x0C, CHR 0x0D, CHR 0x20, CHR 0xA0]"

text \<open>\<^verbatim>\<open>String.prototype.trim\<close>.\<close>

definition trim :: "string \<Rightarrow> string" where
  "trim s = rev (dropWhile isWhiteSpace (rev (dropWhile isWhiteSpace s)))"

definition digitChar :: "nat \<Rightarrow> char" where
  "digitChar n = ''0123456789'' ! (n mod 10)"

text \<open>The decimal numeral of a number, as a template literal prints \<^verbatim>\<open>Date.now()\<close>.\<close>

fun decimal :: "nat \<Rightarrow> string" where
  "decimal n = (if n < 10 then [digitChar n] else decimal (n div 10) @ [digitChar n])"

declare decimal.simps [simp del]

definition basename :: "string \<Rightarrow> string" where
  "basename p = rev (takeWhile (\<lambda>c. c \<noteq> CHR ''/'') (rev p))"

text \<open>
  \<^verbatim>\<open>path.join(dir, name)\<close> of Node on POSIX: the non-empty arguments are put together with
  a slash, then the path is normalised: empty and \<^verbatim>\<open>.\<close> segments go, a \<^verbatim>\<open>..\<close> segment
  takes the segment before it away (above the root of an absolute path there is nothing to
  take), and a slash at the end stays.
\<close>

fun splitOn :: "char \<Rightarrow> string \<Rightarrow> string list" where
  "splitOn c [] = [[]]"
| "splitOn c (x # xs) =
     (if x = c then [] # splitOn c xs
      else (case splitOn c xs of [] \<Rightarrow> [[x]] | s # ss \<Rightarrow> (x # s) # ss))"

fun joinWith :: "string \<Rightarrow> string list \<Rightarrow> string" where
  "joinWith sep [] = []"
| "joinWith sep [s] = s"
| "joinWith sep (s # t # ss) = s @ sep @ joinWith sep (t # ss)"

text \<open>The segments kept so far are in \<open>kept\<close>, the last one first.\<close>

fun normalizeSegments :: "bool \<Rightarrow> string list \<Rightarrow> string list \<Rightarrow> string list" where
  "normalizeSegments allowAboveRoot kept [] = rev kept"
| "normalizeSegments allowAboveRoot kept (s # ss) =
     (if s = [] \<or> s = ''.'' then normalizeSegments allowAboveRoot kept ss
      else if s = ''..'' then
        (case kept of
           k # ks \<Rightarrow>
             if k \<noteq> ''..'' then normalizeSegments allowAboveRoot ks ss
             else normalizeSegments allowAboveRoot (''..'' # kept) ss
         | [] \<Rightarrow>
             if allowAboveRoot then normalizeSegments allowAboveRoot [''..''] ss
             else normalizeSegments allowAboveRoot [] ss)
      else normalizeSegments allowAboveRoot (s # kept) ss)"

definition normalizePath :: "string \<Rightarrow> string" where
  "normalizePath p =
     (if p = [] then ''.''
      else
        let isAbsolute = (hd p = CHR ''/'');
            trailingSeparator = (last p = CHR ''/'');
            q = joinWith ''/'' (normalizeSegments (\<not> isAbsolute) [] (splitOn CHR ''/'' p))
        in
        if q = [] then (if isAbsolute then ''/'' else if trailingSeparator then ''./'' else ''.'')
        else (if isAbsolute then ''/'' else []) @ q @ (if trailingSeparator then ''/'' else []))"

definition pathJoin :: "string \<Rightarrow> string \<Rightarrow> string" where
  "pathJoin dir name =
     (if dir = [] \<and> name = [] then ''.''
      else if dir = [] then normalizePath name
      else if name = [] then normalizePath dir
      else normalizePath (dir @ ''/'' @ name))"

definition quote :: char where
  "quote = CHR 0x27"

subsection \<open>Candidate generation in findPartyByPhoneNumber\<close>

text \<open>
  \<^verbatim>\<open>/(\d{5})(\d{5})/\<close> has no anchors and no \<^verbatim>\<open>g\<close> flag: \<^verbatim>\<open>replace\<close> rewrites the
  leftmost place where ten digits follow each other, and only that one.
\<close>

definition tenDigitsAt :: "string \<Rightarrow> bool" where
  "tenDigitsAt s \<longleftrightarrow> 10 \<le> length s \<and> list_all isDigit (take 10 s)"

text \<open>
  \<^verbatim>\<open>s.replace(/(\d{5})(\d{5})/, '$1' + sep + '$2')\<close>: the first group, the separator,
  the second group; the text before and after the match stays.
\<close>

fun replaceFiveFive :: "string \<Rightarrow> string \<Rightarrow> string" where
  "replaceFiveFive sep [] = []"
| "replaceFiveFive sep (c # cs) =
     (if tenDigitsAt (c # cs) then take 5 (c # cs) @ sep @ drop 5 (c # cs)
      else c # replaceFiveFive sep cs)"

definition searchPatterns :: "string \<Rightarrow> string list" where
  "searchPatterns phoneNumber =
     [phoneNumber,
      replaceFiveFive '' '' phoneNumber,
      replaceFiveFive ''-'' phoneNumber,
      ''('' @ phoneNumber @ '')'',
      ''('' @ replaceFiveFive '' '' phoneNumber @ '')'']"

text \<open>
  \<^verbatim>\<open>pattern.replace(/[.*+?^${}()|[\]\\]/g, '\\$&')\<close>: each character of the class gets a
  backslash in front of it.
\<close>

definition escapedClass :: "char list" where
  "escapedClass = ''.*+?^${}()|[]'' @ [backslash]"

definition escapeRegExp :: "string \<Rightarrow> string" where
  "escapeRegExp pattern =
     concat (map (\<lambda>c. if c \<in> set escapedClass then [backslash, c] else [c]) pattern)"

subsection \<open>Regular expressions as the store runs them\<close>

text \<open>
  The pattern language of \<^verbatim>\<open>new RegExp(source)\<close>, for the tokens that can be read one
  character at a time: a pattern character stands for itself, a backslash followed by a
  syntax character stands for that character, \<^verbatim>\<open>.\<close> is any character except a line
  terminator, \<^verbatim>\<open>^\<close> and \<^verbatim>\<open>$\<close> are the anchors.  Quantifiers, groups, classes,
  alternation and the other escapes are not modelled: \<open>parsePattern\<close> answers \<open>None\<close>
  there, as it does for the source the constructor rejects (a backslash at the end).
\<close>

datatype token = Lit char | AnyChar | Bol | Eol

definition syntaxCharacters :: "char list" where
  "syntaxCharacters = ''^$.*+?()[]{}|'' @ [backslash]"

fun parsePattern :: "string \<Rightarrow> token list option" where
  "parsePattern [] = Some []"
| "parsePattern (c # cs) =
     (if c = backslash then
        (case cs of
           [] \<Rightarrow> None
         | d # ds \<Rightarrow>
             if d \<in> set syntaxCharacters then map_option ((#) (Lit d)) (parsePattern ds)
             else None)
      else if c = CHR ''.'' then map_option ((#) AnyChar) (parsePattern cs)
      else if c = CHR ''^'' then map_option ((#) Bol) (parsePattern cs)
      else if c = CHR ''$'' then map_option ((#) Eol) (parsePattern cs)
      else if c \<in> set syntaxCharacters then None
      else map_option ((#) (Lit c)) (parsePattern cs))"

text \<open>
  \<open>matchHere ts atStart s\<close>: the tokens match a prefix of \<open>s\<close>; \<open>atStart\<close> tells whether
  \<open>s\<close> is the whole input.
\<close>

fun matchHere :: "token list \<Rightarrow> bool \<Rightarrow> string \<Rightarrow> bool" where
  "matchHere [] atStart s = True"
| "matchHere (Lit c # ts) atStart s =
     (case s of [] \<Rightarrow> False | x # xs \<Rightarrow> x = c \<and> matchHere ts False xs)"
| "matchHere (AnyChar # ts) atStart s =
     (case s of [] \<Rightarrow> False
      | x # xs \<Rightarrow> x \<noteq> CHR 0x0A \<and> x \<noteq> CHR 0x0D \<and> matchHere ts False xs)"
| "matchHere (Bol # ts) atStart s = (atStart \<and> matchHere ts atStart s)"
| "matchHere (Eol # ts) atStart s = (s = [] \<and> matchHere ts atStart s)"

text \<open>A regular expression is searched for: the match may start at any position.\<close>

fun searchFrom :: "token list \<Rightarrow> bool \<Rightarrow> string \<Rightarrow> bool" where
  "searchFrom ts atStart [] = matchHere ts atStart []"
| "searchFrom ts atStart (x # xs) = (matchHere ts atStart (x # xs) \<or> searchFrom ts False xs)"

definition regexTest :: "token list \<Rightarrow> string \<Rightarrow> bool" where
  "regexTest ts s = searchFrom ts True s"

text \<open>The test of a pattern source against a stored value; \<open>None\<close> when the source does not parse.\<close>

definition patternMatches :: "string \<Rightarrow> string \<Rightarrow> bool option" where
  "patternMatches source s = map_option (\<lambda>ts. regexTest ts s) (parsePattern source)"

subsection \<open>The collections\<close>

record party =
  code :: string
  customerName :: "string option"
  city :: "string option"

record statement =
  stmtId :: nat
  statementDate :: int

record reportSection =
  statementId :: nat
  partyCode :: string

text \<open>A WhatsAppRequest document: the fields in the order they were set.\<close>

datatype val = Str string | Date nat | Bool bool | Null

type_synonym doc = "(string \<times> val) list"

datatype storeOp = InsertOne doc | UpdateOne nat doc

record message =
  isGroup :: bool
  msgFrom :: string
  body :: string

record media =
  mediaFilename :: string
  mediaData :: string

text \<open>
  What a call \<^verbatim>\<open>message.reply(content, chatId, options)\<close> hands to the chat transport.
  The second parameter of \<^verbatim>\<open>reply\<close> is the chat to send to: when it is left out, the
  message goes to the chat of the message that is answered (and quotes it); a value passed
  there is taken as the chat.  The third parameter holds the options, such as the caption
  of a document; when it is left out there are none.
\<close>

datatype content = TextContent string | MediaContent media

record sendOptions =
  caption :: "string option"

datatype chatArg = NoChatId | ObjectAsChatId sendOptions

datatype addressee = SenderChat | NotAChat sendOptions

record outbound =
  sentTo :: addressee
  sentContent :: content
  sentOptions :: sendOptions

definition noOptions :: sendOptions where
  "noOptions = \<lparr>caption = None\<rparr>"

definition messageReply :: "content \<Rightarrow> chatArg \<Rightarrow> sendOptions \<Rightarrow> outbound" where
  "messageReply c chatId options =
     \<lparr>sentTo = (case chatId of NoChatId \<Rightarrow> SenderChat | ObjectAsChatId v \<Rightarrow> NotAChat v),
      sentContent = c,
      sentOptions = options\<rparr>"

record response =
  status :: nat
  statusText :: string
  respData :: string

subsection \<open>The environment of one message and the state it changes\<close>

text \<open>
  Each \<^verbatim>\<open>await\<close> of the source is a place where a collaborator can fail.  None of them is
  in a loop, so each is reached at most once while one message is handled, and the
  environment says for each whether it throws, and with which message.  An operation that
  throws has had no effect.
\<close>

datatype site =
    InsertRequest | FindParty | UpdateNoMatch | ReplyNoMatch | UpdateMatched
  | CheckFindLatest | CheckFindSection | UpdateNoStatement | ReplyNoStatement
  | GenFindLatest | GenFindSection | AxiosPost | WriteFile | MediaFromFile
  | ReplyIntro | ReplyDocument | Unlink | UpdateProcessed
  | UpdateFailed | ReplyApology | ReplyHandlerApology

record env =
  partyCodes :: "party list"
  statements :: "statement list"
  reportSections :: "reportSection list"
  faults :: "site \<Rightarrow> string option"
  clock :: "nat \<Rightarrow> nat"
  render :: "string \<Rightarrow> nat \<Rightarrow> response"
  cwd :: string

text \<open>
  \<open>whatsappRequests\<close> is the collection (a document's \<^verbatim>\<open>_id\<close> is its position: ids are
  fresh and nothing is deleted), \<open>storeLog\<close> the writes sent to it in order, \<open>replies\<close> the
  messages handed to the chat transport, \<open>files\<close> the working directory, \<open>dateCalls\<close> how often the
  clock has been read (\<open>clock e i\<close> is the time the \<open>i\<close>-th reading gives).
\<close>

record world =
  whatsappRequests :: "doc list"
  storeLog :: "storeOp list"
  replies :: "outbound list"
  files :: "(string \<times> string) list"
  dateCalls :: nat

type_synonym 'a io = "world \<Rightarrow> (string + 'a) \<times> world"

definition ioReturn :: "'a \<Rightarrow> 'a io" where
  "ioReturn x w = (Inr x, w)"

definition ioThrow :: "string \<Rightarrow> 'a io" where
  "ioThrow m w = (Inl m, w)"

definition ioBind :: "'a io \<Rightarrow> ('a \<Rightarrow> 'b io) \<Rightarrow> 'b io" where
  "ioBind m f w = (case m w of (Inl err, w') \<Rightarrow> (Inl err, w') | (Inr x, w') \<Rightarrow> f x w')"

text \<open>\<^verbatim>\<open>try { m } catch (error) { h(error) }\<close>\<close>

definition ioCatch :: "'a io \<Rightarrow> (string \<Rightarrow> 'a io) \<Rightarrow> 'a io" where
  "ioCatch m h w = (case m w of (Inl err, w') \<Rightarrow> h err w' | (Inr x, w') \<Rightarrow> (Inr x, w'))"

definition await :: "env \<Rightarrow> site \<Rightarrow> unit io" where
  "await e s = (case faults e s of None \<Rightarrow> ioReturn () | Some m \<Rightarrow> ioThrow m)"

text \<open>\<^verbatim>\<open>new Date()\<close> and \<^verbatim>\<open>Date.now()\<close>\<close>

definition newDate :: "env \<Rightarrow> nat io" where
  "newDate e w = (Inr (clock e (dateCalls w)), w\<lparr>dateCalls := Suc (dateCalls w)\<rparr>)"

fun setFields :: "doc \<Rightarrow> doc \<Rightarrow> doc" where
  "setFields [] d = d"
| "setFields ((k, v) # kvs) d = setFields kvs (AList.update k v d)"

text \<open>
  What a write does to the collection.
  \<^verbatim>\<open>updateOne({ _id: requestId }, { $set: flds })\<close> changes the document with that id;
  an unknown id matches no document.
\<close>

definition applyOp :: "storeOp \<Rightarrow> doc list \<Rightarrow> doc list" where
  "applyOp op ds =
     (case op of
        InsertOne d \<Rightarrow> ds @ [d]
      | UpdateOne requestId flds \<Rightarrow>
          if requestId < length ds then ds[requestId := setFields flds (ds ! requestId)] else ds)"

definition storeWrite :: "storeOp \<Rightarrow> world \<Rightarrow> world" where
  "storeWrite op w =
     w\<lparr>whatsappRequests := applyOp op (whatsappRequests w), storeLog := storeLog w @ [op]\<rparr>"

definition insertOne :: "env \<Rightarrow> site \<Rightarrow> doc \<Rightarrow> nat io" where
  "insertOne e s d =
     ioBind (await e s) (\<lambda>_ w. (Inr (length (whatsappRequests w)), storeWrite (InsertOne d) w))"

definition updateOne :: "env \<Rightarrow> site \<Rightarrow> nat \<Rightarrow> doc \<Rightarrow> unit io" where
  "updateOne e s requestId flds =
     ioBind (await e s) (\<lambda>_ w. (Inr (), storeWrite (UpdateOne requestId flds) w))"

text \<open>\<^verbatim>\<open>await message.reply(...)\<close>, for the message \<open>out\<close> that the call makes.\<close>

definition reply :: "env \<Rightarrow> site \<Rightarrow> outbound \<Rightarrow> unit io" where
  "reply e s out = ioBind (await e s) (\<lambda>_ w. (Inr (), w\<lparr>replies := replies w @ [out]\<rparr>))"

definition writeFile :: "env \<Rightarrow> string \<Rightarrow> string \<Rightarrow> unit io" where
  "writeFile e p d =
     ioBind (await e WriteFile) (\<lambda>_ w. (Inr (), w\<lparr>files := AList.update p d (files w)\<rparr>))"

text \<open>\<^verbatim>\<open>MessageMedia.fromFilePath\<close> reads the file; the name of the media is the file's.\<close>

definition fromFilePath :: "env \<Rightarrow> string \<Rightarrow> media io" where
  "fromFilePath e p =
     ioBind (await e MediaFromFile) (\<lambda>_ w.
       case map_of (files w) p of
         None \<Rightarrow> (Inl (''ENOENT: no such file or directory, open '' @ [quote] @ p @ [quote]), w)
       | Some d \<Rightarrow> (Inr \<lparr>mediaFilename = basename p, mediaData = d\<rparr>, w))"

definition unlink :: "env \<Rightarrow> string \<Rightarrow> unit io" where
  "unlink e p =
     ioBind (await e Unlink) (\<lambda>_ w.
       case map_of (files w) p of
         None \<Rightarrow> (Inl (''ENOENT: no such file or directory, unlink '' @ [quote] @ p @ [quote]), w)
       | Some d \<Rightarrow> (Inr (), w\<lparr>files := AList.delete p (files w)\<rparr>))"

text \<open>
  \<^verbatim>\<open>statements.find().sort({ statementDate: -1 }).limit(1).toArray()\<close>; among equal
  dates the store's order is kept.
\<close>

definition latestStatement :: "env \<Rightarrow> statement list" where
  "latestStatement e = take 1 (sort_key (\<lambda>st. - statementDate st) (statements e))"

definition findLatest :: "env \<Rightarrow> site \<Rightarrow> statement list io" where
  "findLatest e s = ioBind (await e s) (\<lambda>_. ioReturn (latestStatement e))"

definition findOneSection :: "env \<Rightarrow> site \<Rightarrow> nat \<Rightarrow> string \<Rightarrow> reportSection option io" where
  "findOneSection e s sid pc =
     ioBind (await e s) (\<lambda>_.
       ioReturn (find (\<lambda>r. statementId r = sid \<and> partyCode r = pc) (reportSections e)))"

text \<open>
  \<^verbatim>\<open>{ field: { $in: patterns } }\<close>: the field is a string that one of the patterns
  matches.
\<close>

definition fieldIn :: "string option \<Rightarrow> token list list \<Rightarrow> bool" where
  "fieldIn field patterns =
     (case field of None \<Rightarrow> False | Some v \<Rightarrow> list_ex (\<lambda>ts. regexTest ts v) patterns)"

definition partyMatches :: "token list list \<Rightarrow> party \<Rightarrow> bool" where
  "partyMatches patterns p \<longleftrightarrow> fieldIn (customerName p) patterns \<or> fieldIn (city p) patterns"

text \<open>
  The rendering service: \<open>AxiosPost\<close> throws for a transport fault, a timeout, and a
  status that axios itself rejects; otherwise the response comes back.
\<close>

definition axiosPost :: "env \<Rightarrow> string \<Rightarrow> nat \<Rightarrow> response io" where
  "axiosPost e pc sid = ioBind (await e AxiosPost) (\<lambda>_. ioReturn (render e pc sid))"

subsection \<open>The functions of index.js\<close>

definition findPartyByPhoneNumber :: "env \<Rightarrow> string \<Rightarrow> party option io" where
  "findPartyByPhoneNumber e phoneNumber =
     (case those (map (\<lambda>pattern. parsePattern (escapeRegExp pattern)) (searchPatterns phoneNumber)) of
        None \<Rightarrow> ioThrow ''Invalid regular expression''
      | Some phoneRegexPatterns \<Rightarrow>
          ioBind (await e FindParty) (\<lambda>_.
            ioReturn (find (partyMatches phoneRegexPatterns) (partyCodes e))))"

definition checkForStatement :: "env \<Rightarrow> string \<Rightarrow> bool io" where
  "checkForStatement e pc =
     ioBind (findLatest e CheckFindLatest) (\<lambda>latestStatement.
       case latestStatement of
         [] \<Rightarrow> ioReturn False
       | st # _ \<Rightarrow>
           ioBind (findOneSection e CheckFindSection (stmtId st) pc) (\<lambda>reportSection.
             ioReturn (reportSection \<noteq> None)))"

text \<open>\<^verbatim>\<open>party.customerName || party.code\<close>\<close>

definition nameOrCode :: "party \<Rightarrow> string" where
  "nameOrCode p = (case customerName p of None \<Rightarrow> code p | Some n \<Rightarrow> if n = [] then code p else n)"

definition processedFields :: "nat \<Rightarrow> doc" where
  "processedFields t =
     [(''status'', Str ''PROCESSED''),
      (''statementSent'', Bool True),
      (''responseMessage'', Str ''Statement PDF sent successfully''),
      (''updatedAt'', Date t)]"

text \<open>
  \<^verbatim>\<open>path.join(process.cwd(), `statement_${party.code}_${Date.now()}.pdf`)\<close>
\<close>

definition tempFilePath :: "env \<Rightarrow> party \<Rightarrow> nat \<Rightarrow> string" where
  "tempFilePath e p now = pathJoin (cwd e) (''statement_'' @ code p @ ''_'' @ decimal now @ ''.pdf'')"

definition introReply :: "party \<Rightarrow> outbound" where
  "introReply p =
     messageReply (TextContent (''Here is your latest statement for '' @ nameOrCode p @ '':''))
       NoChatId noOptions"

text \<open>
  \<^verbatim>\<open>message.reply(media, { caption: `Statement ${party.code}` })\<close>: the object with the
  caption is the second argument, so it is in the place of \<^verbatim>\<open>chatId\<close>, and no options
  are passed.
\<close>

definition documentReply :: "party \<Rightarrow> media \<Rightarrow> outbound" where
  "documentReply p m =
     messageReply (MediaContent m) (ObjectAsChatId \<lparr>caption = Some (''Statement '' @ code p)\<rparr>)
       noOptions"

definition generateAndSendStatement :: "env \<Rightarrow> party \<Rightarrow> nat \<Rightarrow> unit io" where
  "generateAndSendStatement e p requestId =
     ioCatch
       (ioBind (findLatest e GenFindLatest) (\<lambda>latestStatement.
          case latestStatement of
            [] \<Rightarrow> ioThrow ''No statements found in the database''
          | st # _ \<Rightarrow>
              ioBind (findOneSection e GenFindSection (stmtId st) (code p)) (\<lambda>reportSection.
                case reportSection of
                  None \<Rightarrow> ioThrow ''Report section not found''
                | Some _ \<Rightarrow>
                    ioCatch
                      (ioBind (axiosPost e (code p) (stmtId st)) (\<lambda>resp.
                         if status resp \<noteq> 200
                         then ioThrow (''Failed to generate PDF: '' @ statusText resp)
                         else
                           ioBind (newDate e) (\<lambda>now.
                           ioBind (writeFile e (tempFilePath e p now) (respData resp)) (\<lambda>_.
                           ioBind (fromFilePath e (tempFilePath e p now)) (\<lambda>m.
                           ioBind (reply e ReplyIntro (introReply p)) (\<lambda>_.
                           ioBind (reply e ReplyDocument (documentReply p m)) (\<lambda>_.
                           ioBind (unlink e (tempFilePath e p now)) (\<lambda>_.
                           ioBind (newDate e) (\<lambda>t.
                           updateOne e UpdateProcessed requestId (processedFields t))))))))))
                      (\<lambda>apiError. ioThrow (''Failed to generate PDF: '' @ apiError)))))
       (\<lambda>error. ioThrow error)"

definition apology :: string where
  "apology = ''Sorry, there was an error processing your request. Please try again later.''"

definition noMatchFields :: "nat \<Rightarrow> doc" where
  "noMatchFields t =
     [(''status'', Str ''NO_MATCH''),
      (''responseMessage'', Str ''Your number isn't linked with any party.''),
      (''updatedAt'', Date t)]"

definition matchedFields :: "party \<Rightarrow> nat \<Rightarrow> doc" where
  "matchedFields p t =
     [(''matchedPartyCode'', Str (code p)),
      (''matchedPartyName'', (case customerName p of None \<Rightarrow> Null | Some n \<Rightarrow> Str n)),
      (''updatedAt'', Date t)]"

definition noStatementFields :: "party \<Rightarrow> nat \<Rightarrow> doc" where
  "noStatementFields p t =
     [(''status'', Str ''NO_STATEMENT''),
      (''responseMessage'', Str (''No statement found for party code '' @ code p)),
      (''updatedAt'', Date t)]"

definition failedFields :: "string \<Rightarrow> nat \<Rightarrow> doc" where
  "failedFields error t =
     [(''status'', Str ''FAILED''),
      (''responseMessage'', Str (''Error: '' @ error)),
      (''updatedAt'', Date t)]"

definition noMatchReply :: outbound where
  "noMatchReply =
     messageReply
       (TextContent (''Sorry, your number isn't linked with any party. '' @
          ''Please contact Sanjivan Medico Traders to add this number to their database.''))
       NoChatId noOptions"

definition noStatementReply :: "party \<Rightarrow> outbound" where
  "noStatementReply p =
     messageReply
       (TextContent (''No statement found for \"'' @ code p @
          ''\". Please contact Sanjivan Medico Traders for more information.''))
       NoChatId noOptions"

definition apologyReply :: outbound where
  "apologyReply = messageReply (TextContent apology) NoChatId noOptions"

text \<open>The \<^verbatim>\<open>try\<close> block of processWhatsAppRequest.\<close>

definition processTry :: "env \<Rightarrow> string \<Rightarrow> nat \<Rightarrow> unit io" where
  "processTry e phoneNumber requestId =
     ioBind (findPartyByPhoneNumber e phoneNumber) (\<lambda>matchedParty.
       case matchedParty of
         None \<Rightarrow>
           ioBind (newDate e) (\<lambda>t.
           ioBind (updateOne e UpdateNoMatch requestId (noMatchFields t)) (\<lambda>_.
           reply e ReplyNoMatch noMatchReply))
       | Some p \<Rightarrow>
           ioBind (newDate e) (\<lambda>t.
           ioBind (updateOne e UpdateMatched requestId (matchedFields p t)) (\<lambda>_.
           ioBind (checkForStatement e (code p)) (\<lambda>hasStatement.
             if \<not> hasStatement then
               ioBind (newDate e) (\<lambda>t'.
               ioBind (updateOne e UpdateNoStatement requestId (noStatementFields p t')) (\<lambda>_.
               reply e ReplyNoStatement (noStatementReply p)))
             else generateAndSendStatement e p requestId))))"

text \<open>Its \<^verbatim>\<open>catch\<close> block.\<close>

definition processCatch :: "env \<Rightarrow> nat \<Rightarrow> string \<Rightarrow> unit io" where
  "processCatch e requestId error =
     ioBind (newDate e) (\<lambda>t.
     ioBind (updateOne e UpdateFailed requestId (failedFields error t)) (\<lambda>_.
     reply e ReplyApology apologyReply))"

definition processWhatsAppRequest :: "env \<Rightarrow> string \<Rightarrow> nat \<Rightarrow> unit io" where
  "processWhatsAppRequest e phoneNumber requestId =
     ioCatch (processTry e phoneNumber requestId) (processCatch e requestId)"

definition requestRecord :: "string \<Rightarrow> string \<Rightarrow> nat \<Rightarrow> nat \<Rightarrow> nat \<Rightarrow> doc" where
  "requestRecord phoneNumber messageText t1 t2 t3 =
     [(''phoneNumber'', Str phoneNumber),
      (''message'', Str messageText),
      (''timestamp'', Date t1),
      (''status'', Str ''RECEIVED''),
      (''createdAt'', Date t2),
      (''updatedAt'', Date t3)]"

text \<open>The request document is built and stored; the three dates are read in field order.\<close>

definition createRequest :: "env \<Rightarrow> string \<Rightarrow> string \<Rightarrow> nat io" where
  "createRequest e phoneNumber messageText =
     ioBind (newDate e) (\<lambda>t1.
     ioBind (newDate e) (\<lambda>t2.
     ioBind (newDate e) (\<lambda>t3.
     insertOne e InsertRequest (requestRecord phoneNumber messageText t1 t2 t3))))"

text \<open>The handler of \<^verbatim>\<open>client.on('message', ...)\<close>.\<close>

definition onMessage :: "env \<Rightarrow> message \<Rightarrow> unit io" where
  "onMessage e msg =
     ioCatch
       (if isGroup msg then ioReturn ()
        else
          let phoneNumber = removeNonDigits (msgFrom msg);
              messageText = trim (body msg)
          in
          ioBind (createRequest e phoneNumber messageText) (\<lambda>requestId.
          processWhatsAppRequest e phoneNumber requestId))
       (\<lambda>error. ioCatch (reply e ReplyHandlerApology apologyReply) (\<lambda>replyError. ioReturn ()))"

subsection \<open>Observations on a run\<close>

text \<open>
  \<open>ends m w E K\<close>: running \<open>m\<close> in the state \<open>w\<close> either throws an error \<open>x\<close> in
  a state \<open>w'\<close> with \<open>E x w'\<close>, or returns a value \<open>a\<close> in a state \<open>w'\<close> with \<open>K a w'\<close>.
\<close>

definition ends :: "'a io \<Rightarrow> world \<Rightarrow> (string \<Rightarrow> world \<Rightarrow> bool) \<Rightarrow> ('a \<Rightarrow> world \<Rightarrow> bool) \<Rightarrow> bool" where
  "ends m w E K = (case m w of (Inl x, w') \<Rightarrow> E x w' | (Inr a, w') \<Rightarrow> K a w')"

text \<open>The values that a sequence of writes gives to the field \<^verbatim>\<open>status\<close>, in order.\<close>

definition statusWrites :: "storeOp list \<Rightarrow> val list" where
  "statusWrites ops =
     concat (map (\<lambda>op. case op of
                          InsertOne d \<Rightarrow> []
                        | UpdateOne i flds \<Rightarrow>
                            (case map_of flds ''status'' of None \<Rightarrow> [] | Some v \<Rightarrow> [v])) ops)"

text \<open>An update of the document \<open>requestId\<close> whose \<^verbatim>\<open>$set\<close> gives \<^verbatim>\<open>updatedAt\<close> a date.\<close>

definition updatesWithTimestamp :: "nat \<Rightarrow> storeOp \<Rightarrow> bool" where
  "updatesWithTimestamp requestId op =
     (case op of
        InsertOne d \<Rightarrow> False
      | UpdateOne i flds \<Rightarrow>
          i = requestId \<and> (case map_of flds ''updatedAt'' of Some (Date t) \<Rightarrow> True | _ \<Rightarrow> False))"

text \<open>
  A write that leaves \<^verbatim>\<open>statementSent\<close> alone, or sets it to true together with the
  status PROCESSED and the fixed success message.
\<close>

definition sentWriteOK :: "storeOp \<Rightarrow> bool" where
  "sentWriteOK op =
     (case op of
        InsertOne d \<Rightarrow> map_of d ''statementSent'' = None
      | UpdateOne i flds \<Rightarrow>
          map_of flds ''statementSent'' = None \<or>
          (map_of flds ''statementSent'' = Some (Bool True) \<and>
           map_of flds ''status'' = Some (Str ''PROCESSED'') \<and>
           map_of flds ''responseMessage'' = Some (Str ''Statement PDF sent successfully'')))"

text \<open>A document whose \<^verbatim>\<open>statementSent\<close> is true has the status PROCESSED.\<close>

definition sentIsProcessed :: "doc \<Rightarrow> bool" where
  "sentIsProcessed d \<longleftrightarrow>
     map_of d ''statementSent'' \<noteq> Some (Bool True) \<or> map_of d ''status'' = Some (Str ''PROCESSED'')"

text \<open>
  What the handler does once the \<^verbatim>\<open>try\<close> block of processWhatsAppRequest has thrown
  \<open>error\<close>: the \<^verbatim>\<open>catch\<close> block of processWhatsAppRequest inside the \<^verbatim>\<open>catch\<close> block
  of the handler.
\<close>

definition recover :: "env \<Rightarrow> nat \<Rightarrow> string \<Rightarrow> unit io" where
  "recover e requestId error =
     ioCatch (processCatch e requestId error)
       (\<lambda>error. ioCatch (reply e ReplyHandlerApology apologyReply) (\<lambda>replyError. ioReturn ()))"

subsection \<open>A sample store and sample messages\<close>

definition noFaults :: "site \<Rightarrow> string option" where
  "noFaults s = None"

definition sampleParty :: party where
  "sampleParty = \<lparr>code = ''C100'', customerName = Some ''Asha 98765 43210'', city = Some ''Pune''\<rparr>"

definition sampleResponse :: response where
  "sampleResponse = \<lparr>status = 200, statusText = ''OK'', respData = ''%PDF-1.4''\<rparr>"

definition sampleEnv :: "(site \<Rightarrow> string option) \<Rightarrow> env" where
  "sampleEnv f =
     \<lparr>partyCodes = [sampleParty],
      statements = [\<lparr>stmtId = 1, statementDate = 20240131\<rparr>, \<lparr>stmtId = 2, statementDate = 20240229\<rparr>],
      reportSections = [\<lparr>statementId = 2, partyCode = ''C100''\<rparr>],
      faults = f,
      clock = (\<lambda>i. 1700000000 + i),
      render = (\<lambda>pc sid. sampleResponse),
      cwd = ''/app''\<rparr>"

definition sampleMessage :: message where
  "sampleMessage = \<lparr>isGroup = False, msgFrom = ''9876543210@c.us'', body = '' statement ''\<rparr>"

definition strangerMessage :: message where
  "strangerMessage = \<lparr>isGroup = False, msgFrom = ''5550001111@c.us'', body = ''hi''\<rparr>"

definition emptyWorld :: world where
  "emptyWorld = \<lparr>whatsappRequests = [], storeLog = [], replies = [], files = [], dateCalls = 0\<rparr>"


section \<open>The phone matcher\<close>

subsection \<open>The 5+5 split\<close>

lemma replaceFiveFive_short: "length s < 10 \<Longrightarrow> replaceFiveFive sep s = s"
  by (induction s) (auto simp: tenDigitsAt_def)

lemma replaceFiveFive_digits:
  "list_all isDigit s \<Longrightarrow> 10 \<le> length s \<Longrightarrow> replaceFiveFive sep s = take 5 s @ sep @ drop 5 s"
  by (cases s) (auto simp: tenDigitsAt_def list_all_iff dest: in_set_takeD)

lemma searchPatterns_short:
  "length s < 10 \<Longrightarrow> searchPatterns s = [s, s, s, ''('' @ s @ '')'', ''('' @ s @ '')'']"
  by (simp add: searchPatterns_def replaceFiveFive_short)

lemma searchPatterns_digits:
  "list_all isDigit s \<Longrightarrow> 10 \<le> length s \<Longrightarrow>
   searchPatterns s =
     [s, take 5 s @ '' '' @ drop 5 s, take 5 s @ ''-'' @ drop 5 s,
      ''('' @ s @ '')'', ''('' @ take 5 s @ '' '' @ drop 5 s @ '')'']"
  by (simp add: searchPatterns_def replaceFiveFive_digits)

lemma paren_neq: "''('' @ s @ '')'' \<noteq> s"
proof
  assume "''('' @ s @ '')'' = s"
  then have "length (''('' @ s @ '')'') = length s" by (rule arg_cong)
  then show False by simp
qed

lemma insert_sep_neq: "sep \<noteq> [] \<Longrightarrow> take n s @ sep @ drop n s \<noteq> s"
proof
  assume "sep \<noteq> []" and "take n s @ sep @ drop n s = s"
  then have "length (take n s @ sep @ drop n s) = length s" by simp
  then have "length (take n s) + length (drop n s) + length sep = length s" by simp
  then have "length sep = 0" by (simp del: length_0_conv)
  with \<open>sep \<noteq> []\<close> show False by simp
qed

text \<open>
  The five variants of a split string have the lengths \<open>n\<close>, \<open>n + 1\<close>, \<open>n + 1\<close>, \<open>n + 2\<close>
  and \<open>n + 3\<close>, and the two of length \<open>n + 1\<close> differ in the separator: whatever the
  digits are, no two variants coincide.
\<close>

lemma five_variants_distinct:
  "distinct [s, take 5 s @ '' '' @ drop 5 s, take 5 s @ ''-'' @ drop 5 s,
      ''('' @ s @ '')'', ''('' @ take 5 s @ '' '' @ drop 5 s @ '')'']"
proof -
  let ?a = "take 5 s" and ?b = "drop 5 s"
  have ne: "\<And>x y :: string. length x \<noteq> length y \<Longrightarrow> x \<noteq> y" by auto
  have 1: "s \<noteq> ?a @ '' '' @ ?b" by (rule ne) simp
  have 2: "s \<noteq> ?a @ ''-'' @ ?b" by (rule ne) simp
  have 3: "s \<noteq> ''('' @ s @ '')''" by (rule ne) simp
  have 4: "s \<noteq> ''('' @ ?a @ '' '' @ ?b @ '')''" by (rule ne) simp
  have 5: "?a @ '' '' @ ?b \<noteq> ?a @ ''-'' @ ?b" by simp
  have 6: "?a @ '' '' @ ?b \<noteq> ''('' @ s @ '')''" by (rule ne) simp
  have 7: "?a @ '' '' @ ?b \<noteq> ''('' @ ?a @ '' '' @ ?b @ '')''" by (rule ne) simp
  have 8: "?a @ ''-'' @ ?b \<noteq> ''('' @ s @ '')''" by (rule ne) simp
  have 9: "?a @ ''-'' @ ?b \<noteq> ''('' @ ?a @ '' '' @ ?b @ '')''" by (rule ne) simp
  have 10: "''('' @ s @ '')'' \<noteq> ''('' @ ?a @ '' '' @ ?b @ '')''" by (rule ne) simp
  show ?thesis using 1 2 3 4 5 6 7 8 9 10 by simp
qed

text \<open>
  Claim C1 as the specification states it: for every digit string whose length is not 10
  the two splits leave the string as it is, and the candidates are two or three distinct
  strings.  The sender identifier of a chat message carries the country prefix: for its
  twelve digits the pattern matches the first ten, both splits change the string and the
  five candidates are distinct.
\<close>

theorem C1_split_longer_counterexample:
  "list_all isDigit ''919876543210'' \<and> length ''919876543210'' \<noteq> 10 \<and>
   replaceFiveFive '' '' ''919876543210'' = ''91987 6543210'' \<and>
   replaceFiveFive ''-'' ''919876543210'' = ''91987-6543210'' \<and>
   searchPatterns ''919876543210'' =
     [''919876543210'', ''91987 6543210'', ''91987-6543210'', ''(919876543210)'', ''(91987 6543210)''] \<and>
   card (set (searchPatterns ''919876543210'')) = 5"
  by (simp add: searchPatterns_def tenDigitsAt_def isDigit_def)

text \<open>
  Claim C1, amended: for every digit string shorter than 10 the two splits are no-ops and
  the candidates are exactly two distinct strings, the digits and the digits in
  parentheses; for every digit string longer than 10 each split puts its separator after
  the fifth digit, changes the string, and the five candidates are pairwise distinct.
\<close>

theorem C1_split_by_length:
  "list_all isDigit s \<Longrightarrow>
   (length s < 10 \<longrightarrow>
      replaceFiveFive '' '' s = s \<and> replaceFiveFive ''-'' s = s \<and>
      searchPatterns s = [s, s, s, ''('' @ s @ '')'', ''('' @ s @ '')''] \<and>
      card (set (searchPatterns s)) = 2) \<and>
   (10 < length s \<longrightarrow>
      replaceFiveFive '' '' s = take 5 s @ '' '' @ drop 5 s \<and>
      replaceFiveFive ''-'' s = take 5 s @ ''-'' @ drop 5 s \<and>
      replaceFiveFive '' '' s \<noteq> s \<and> replaceFiveFive ''-'' s \<noteq> s \<and>
      distinct (searchPatterns s))"
proof (intro conjI impI)
  assume d: "list_all isDigit s" and l: "10 < length s"
  show "replaceFiveFive '' '' s = take 5 s @ '' '' @ drop 5 s"
    using d l by (simp add: replaceFiveFive_digits)
  show "replaceFiveFive ''-'' s = take 5 s @ ''-'' @ drop 5 s"
    using d l by (simp add: replaceFiveFive_digits)
  show "distinct (searchPatterns s)"
    using d l five_variants_distinct [of s] by (simp add: searchPatterns_digits)
  show "replaceFiveFive '' '' s \<noteq> s"
    using d l insert_sep_neq [of "'' ''" 5 s] by (simp add: replaceFiveFive_digits)
  show "replaceFiveFive ''-'' s \<noteq> s"
    using d l insert_sep_neq [of "''-''" 5 s] by (simp add: replaceFiveFive_digits)
next
  assume l: "length s < 10"
  show "replaceFiveFive '' '' s = s" "replaceFiveFive ''-'' s = s"
    using l by (simp_all add: replaceFiveFive_short)
  show "searchPatterns s = [s, s, s, ''('' @ s @ '')'', ''('' @ s @ '')'']"
    using l by (rule searchPatterns_short)
  show "card (set (searchPatterns s)) = 2"
    using l paren_neq [of s] by (simp add: searchPatterns_short card_insert_if)
qed

theorem C1_split_by_length_witness:
  "list_all isDigit ''98765'' \<and> length ''98765'' < 10 \<and>
   searchPatterns ''98765'' = [''98765'', ''98765'', ''98765'', ''(98765)'', ''(98765)''] \<and>
   card (set (searchPatterns ''98765'')) = 2 \<and>
   list_all isDigit ''919876543210'' \<and> 10 < length ''919876543210'' \<and>
   replaceFiveFive '' '' ''919876543210'' = ''91987 6543210'' \<and>
   distinct (searchPatterns ''919876543210'')"
  using C1_split_by_length [of "''98765''"] C1_split_by_length [of "''919876543210''"]
  by (simp add: isDigit_def)

text \<open>
  Claim C6: for every digit string of length 10 the candidates are the digits, the 5+5
  split joined by a space, the split joined by a hyphen, the digits in parentheses and the
  space-joined split in parentheses, and the five are pairwise distinct.  They are
  distinct for every such string: no repetition of digits makes two of them equal.
\<close>

theorem C6_ten_digit_candidates:
  "list_all isDigit s \<Longrightarrow> length s = 10 \<Longrightarrow>
   searchPatterns s =
     [s, take 5 s @ '' '' @ drop 5 s, take 5 s @ ''-'' @ drop 5 s,
      ''('' @ s @ '')'', ''('' @ take 5 s @ '' '' @ drop 5 s @ '')'']
   \<and> distinct (searchPatterns s)"
  using five_variants_distinct [of s] by (simp add: searchPatterns_digits)

theorem C6_ten_digit_candidates_witness:
  "list_all isDigit ''9876543210'' \<and> length ''9876543210'' = 10 \<and>
   searchPatterns ''9876543210'' =
     [''9876543210'', ''98765 43210'', ''98765-43210'', ''(9876543210)'', ''(98765 43210)'']
   \<and> distinct (searchPatterns ''9876543210'')"
  using C6_ten_digit_candidates [of "''9876543210''"] by (simp add: isDigit_def)

subsection \<open>Escaped candidates are literal, unanchored patterns\<close>

lemma set_escapedClass: "set escapedClass = set syntaxCharacters"
  by (auto simp: escapedClass_def syntaxCharacters_def)

text \<open>After escaping, the pattern reads as one literal token for each character of the candidate.\<close>

lemma parsePattern_escapeRegExp: "parsePattern (escapeRegExp c) = Some (map Lit c)"
proof (induction c)
  case Nil
  then show ?case by (simp add: escapeRegExp_def)
next
  case (Cons a c)
  have rest:
    "parsePattern (concat (map (\<lambda>c. if c \<in> set escapedClass then [backslash, c] else [c]) c))
       = Some (map Lit c)"
    using Cons by (simp add: escapeRegExp_def)
  show ?case
  proof (cases "a \<in> set escapedClass")
    case True
    then show ?thesis using rest by (simp add: escapeRegExp_def set_escapedClass)
  next
    case False
    then have "a \<noteq> backslash" "a \<noteq> CHR ''.''" "a \<noteq> CHR ''^''" "a \<noteq> CHR ''$''"
      "a \<notin> set syntaxCharacters"
      by (auto simp: escapedClass_def syntaxCharacters_def)
    then show ?thesis using False rest by (simp add: escapeRegExp_def)
  qed
qed

lemma matchHere_literals: "matchHere (map Lit c) b s = prefix c s"
  by (induction c arbitrary: b s) (auto split: list.splits)

lemma searchFrom_literals: "searchFrom (map Lit c) b s = sublist c s"
  by (induction s arbitrary: b) (auto simp: matchHere_literals sublist_Cons_right)

text \<open>
  Claim C5: the escaped candidate is a pattern in which every character stands for itself,
  and it is not anchored: for every candidate \<open>c\<close> (indeed every string) and every stored
  value \<open>s\<close>, the pattern built from \<open>c\<close> matches \<open>s\<close> exactly when \<open>c\<close> occurs in \<open>s\<close> as
  a contiguous substring.
\<close>

theorem C5_escaped_pattern_is_substring_test:
  "patternMatches (escapeRegExp c) s = Some (sublist c s)"
  by (simp add: patternMatches_def parsePattern_escapeRegExp regexTest_def searchFrom_literals)

text \<open>
  The example of the specification: the sender digits 9876543210 have the space-joined
  split among their candidates, and its pattern matches the locality, which the pattern
  of the unsplit digits does not.
\<close>

lemma locality_example:
  "searchPatterns ''9876543210'' ! 1 = ''98765 43210'' \<and>
   patternMatches (escapeRegExp ''98765 43210'') ''near 98765 43210 market'' = Some True \<and>
   patternMatches (escapeRegExp ''9876543210'') ''near 98765 43210 market'' = Some False"
  by (simp add: searchPatterns_def tenDigitsAt_def isDigit_def patternMatches_def
      parsePattern_escapeRegExp regexTest_def searchFrom_literals sublist_Cons_right)

subsection \<open>Looking the sender up\<close>

lemma those_parsePattern_escapeRegExp:
  "those (map (\<lambda>pattern. parsePattern (escapeRegExp pattern)) ps) = Some (map (map Lit) ps)"
  by (induction ps) (simp_all add: parsePattern_escapeRegExp)

lemma findPartyByPhoneNumber_ok:
  "faults e FindParty = None \<Longrightarrow>
   findPartyByPhoneNumber e ph w =
     (Inr (find (partyMatches (map (map Lit) (searchPatterns ph))) (partyCodes e)), w)"
  by (simp add: findPartyByPhoneNumber_def those_parsePattern_escapeRegExp ioBind_def await_def
      ioReturn_def)

lemma removeNonDigits_no_digit: "\<forall>c\<in>set s. \<not> isDigit c \<Longrightarrow> removeNonDigits s = []"
  by (induction s) (auto simp: removeNonDigits_def)

lemma find_some: "\<exists>x\<in>set xs. P x \<Longrightarrow> \<exists>y. find P xs = Some y"
  by (induction xs) auto

lemma regexTest_empty: "regexTest [] v"
  by (cases v) (simp_all add: regexTest_def)

lemma partyMatches_empty_candidate:
  "partyMatches (map (map Lit) (searchPatterns [])) p \<longleftrightarrow> customerName p \<noteq> None \<or> city p \<noteq> None"
  by (auto simp: partyMatches_def fieldIn_def searchPatterns_def regexTest_empty split: option.splits)

text \<open>
  Claim C9: a sender identifier without any digit gives the empty digit string; the
  candidates are the empty string three times and \<open>()\<close> twice; the pattern of the empty
  string matches every stored value, so findPartyByPhoneNumber returns the first record of
  the store that has a name or a locality field, and returns some record whenever the store
  holds one.
\<close>

theorem C9_digitless_sender_matches_first_party:
  assumes "\<forall>c\<in>set sender. \<not> isDigit c" and "faults e FindParty = None"
  shows "removeNonDigits sender = [] \<and>
         searchPatterns (removeNonDigits sender) = ['''', '''', '''', ''()'', ''()''] \<and>
         (\<forall>v. patternMatches (escapeRegExp '''') v = Some True) \<and>
         findPartyByPhoneNumber e (removeNonDigits sender) w =
           (Inr (find (\<lambda>p. customerName p \<noteq> None \<or> city p \<noteq> None) (partyCodes e)), w) \<and>
         ((\<exists>p\<in>set (partyCodes e). customerName p \<noteq> None \<or> city p \<noteq> None) \<longrightarrow>
            (\<exists>p. find (\<lambda>p. customerName p \<noteq> None \<or> city p \<noteq> None) (partyCodes e) = Some p))"
proof -
  have nil: "removeNonDigits sender = []"
    using assms(1) by (rule removeNonDigits_no_digit)
  have cands: "searchPatterns [] = ['''', '''', '''', ''()'', ''()'']"
    by (simp add: searchPatterns_def)
  have pat: "\<forall>v. patternMatches (escapeRegExp '''') v = Some True"
    by (simp add: patternMatches_def escapeRegExp_def regexTest_empty)
  have "find (partyMatches (map (map Lit) (searchPatterns []))) (partyCodes e) =
        find (\<lambda>p. customerName p \<noteq> None \<or> city p \<noteq> None) (partyCodes e)"
    by (rule find_cong) (simp_all add: partyMatches_empty_candidate)
  then have found: "findPartyByPhoneNumber e [] w =
      (Inr (find (\<lambda>p. customerName p \<noteq> None \<or> city p \<noteq> None) (partyCodes e)), w)"
    using assms(2) by (simp add: findPartyByPhoneNumber_ok)
  have some: "(\<exists>p\<in>set (partyCodes e). customerName p \<noteq> None \<or> city p \<noteq> None) \<longrightarrow>
      (\<exists>p. find (\<lambda>p. customerName p \<noteq> None \<or> city p \<noteq> None) (partyCodes e) = Some p)"
    using find_some [of "partyCodes e" "\<lambda>p. customerName p \<noteq> None \<or> city p \<noteq> None"] by blast
  show ?thesis unfolding nil using cands pat found some by blast
qed

theorem C9_digitless_sender_matches_first_party_witness:
  "removeNonDigits ''status@broadcast'' = [] \<and>
   findPartyByPhoneNumber (sampleEnv noFaults) (removeNonDigits ''status@broadcast'') emptyWorld =
     (Inr (Some sampleParty), emptyWorld)"
  using C9_digitless_sender_matches_first_party [of "''status@broadcast''" "sampleEnv noFaults" emptyWorld]
  by (simp add: removeNonDigits_def isDigit_def sampleEnv_def noFaults_def sampleParty_def)

section \<open>The statement check\<close>

lemma latestStatement_Nil: "latestStatement e = [] \<longleftrightarrow> statements e = []"
proof -
  have "length (sort_key (\<lambda>st. - statementDate st) (statements e)) = length (statements e)"
    by simp
  then show ?thesis unfolding latestStatement_def by (auto simp del: length_sort)
qed

text \<open>The query gives nothing for an empty store and otherwise one statement of the latest date.\<close>

lemma latestStatement_cases:
  obtains "statements e = []" and "latestStatement e = []"
  | st where "latestStatement e = [st]" and "st \<in> set (statements e)"
      and "\<forall>s\<in>set (statements e). statementDate s \<le> statementDate st"
proof (cases "sort_key (\<lambda>st. - statementDate st) (statements e)")
  case Nil
  then have "latestStatement e = []" by (simp add: latestStatement_def)
  then show ?thesis using that(1) latestStatement_Nil by blast
next
  case (Cons st ys)
  have "sorted (map (\<lambda>st. - statementDate st) (sort_key (\<lambda>st. - statementDate st) (statements e)))"
    by simp
  then have "\<forall>y\<in>set (st # ys). statementDate y \<le> statementDate st"
    unfolding Cons by auto
  moreover have "set (st # ys) = set (statements e)"
    using Cons set_sort [of "\<lambda>st. - statementDate st" "statements e"] by simp
  moreover have "latestStatement e = [st]" by (simp add: latestStatement_def Cons)
  ultimately show ?thesis using that(2) [of st] by (metis list.set_intros(1))
qed

lemma findLatest_ok: "faults e s = None \<Longrightarrow> findLatest e s w = (Inr (latestStatement e), w)"
  by (simp add: findLatest_def ioBind_def await_def ioReturn_def)

lemma findOneSection_ok:
  "faults e s = None \<Longrightarrow>
   findOneSection e s sid pc w =
     (Inr (find (\<lambda>r. statementId r = sid \<and> partyCode r = pc) (reportSections e)), w)"
  by (simp add: findOneSection_def ioBind_def await_def ioReturn_def)

lemma find_section_iff:
  "(find (\<lambda>r. statementId r = sid \<and> partyCode r = pc) rs \<noteq> None) =
   (\<exists>r\<in>set rs. statementId r = sid \<and> partyCode r = pc)"
  by (auto simp: find_None_iff)

lemma checkForStatement_Nil:
  "faults e CheckFindLatest = None \<Longrightarrow> latestStatement e = [] \<Longrightarrow>
   checkForStatement e pc w = (Inr False, w)"
  by (simp add: checkForStatement_def findLatest_ok ioBind_def ioReturn_def)

lemma checkForStatement_Cons:
  "faults e CheckFindLatest = None \<Longrightarrow> faults e CheckFindSection = None \<Longrightarrow>
   latestStatement e = st # sts \<Longrightarrow>
   checkForStatement e pc w =
     (Inr (\<exists>r\<in>set (reportSections e). statementId r = stmtId st \<and> partyCode r = pc), w)"
  using find_section_iff [of "stmtId st" pc "reportSections e"]
  by (simp add: checkForStatement_def findLatest_ok findOneSection_ok ioBind_def ioReturn_def)

text \<open>
  Claim C4: when the two reads succeed, checkForStatement returns false for a store without
  statements, and for a store with statements it returns whether a ReportSection with the
  id of the most recent statement (by statementDate) and the party code exists; the
  state is the one it started in, and a second call gives what the first one gave.
\<close>

theorem C4_checkForStatement:
  assumes "faults e CheckFindLatest = None" and "faults e CheckFindSection = None"
  shows "(statements e = [] \<longrightarrow> checkForStatement e pc w = (Inr False, w)) \<and>
         (statements e \<noteq> [] \<longrightarrow>
            (\<exists>st\<in>set (statements e).
               (\<forall>s\<in>set (statements e). statementDate s \<le> statementDate st) \<and>
               latestStatement e = [st] \<and>
               checkForStatement e pc w =
                 (Inr (\<exists>r\<in>set (reportSections e). statementId r = stmtId st \<and> partyCode r = pc), w))) \<and>
         ioBind (checkForStatement e pc) (\<lambda>_. checkForStatement e pc) w = checkForStatement e pc w \<and>
         snd (checkForStatement e pc w) = w"
proof (cases e rule: latestStatement_cases)
  case 1
  then show ?thesis using assms by (simp add: checkForStatement_Nil ioBind_def)
next
  case (2 st)
  have ne: "statements e \<noteq> []" using 2(2) by auto
  have r: "checkForStatement e pc w =
      (Inr (\<exists>r\<in>set (reportSections e). statementId r = stmtId st \<and> partyCode r = pc), w)"
    using assms 2(1) by (rule checkForStatement_Cons)
  have "ioBind (checkForStatement e pc) (\<lambda>_. checkForStatement e pc) w = checkForStatement e pc w"
    by (simp add: r ioBind_def)
  moreover have "snd (checkForStatement e pc w) = w" by (simp add: r)
  ultimately show ?thesis using ne 2 r by blast
qed

lemma sample_latestStatement:
  "latestStatement (sampleEnv f) = [\<lparr>stmtId = 2, statementDate = 20240229\<rparr>]"
  by (simp add: latestStatement_def sampleEnv_def)

theorem C4_checkForStatement_witness:
  "faults (sampleEnv noFaults) CheckFindLatest = None \<and>
   faults (sampleEnv noFaults) CheckFindSection = None \<and>
   statements (sampleEnv noFaults) \<noteq> [] \<and>
   checkForStatement (sampleEnv noFaults) ''C100'' emptyWorld = (Inr True, emptyWorld) \<and>
   checkForStatement (sampleEnv noFaults) ''C200'' emptyWorld = (Inr False, emptyWorld)"
  using C4_checkForStatement [of "sampleEnv noFaults" "''C100''" emptyWorld]
    C4_checkForStatement [of "sampleEnv noFaults" "''C200''" emptyWorld]
  by (simp add: sample_latestStatement) (simp add: sampleEnv_def noFaults_def)

section \<open>Running the handler\<close>

subsection \<open>Rules for the outcome of a computation\<close>

lemma endsD:
  "ends m w E K \<Longrightarrow> m w = (r, w') \<Longrightarrow> (case r of Inl x \<Rightarrow> E x w' | Inr a \<Rightarrow> K a w')"
  by (simp add: ends_def)

lemma ends_ioReturn: "K a w \<Longrightarrow> ends (ioReturn a) w E K"
  by (simp add: ends_def ioReturn_def)

lemma ends_ioThrow: "E x w \<Longrightarrow> ends (ioThrow x) w E K"
  by (simp add: ends_def ioThrow_def)

lemma ends_ioBind: "ends m w E (\<lambda>a w'. ends (f a) w' E K) \<Longrightarrow> ends (ioBind m f) w E K"
  by (simp add: ends_def ioBind_def split: prod.splits sum.splits)

lemma ends_ioCatch: "ends m w (\<lambda>x w'. ends (h x) w' E K) K \<Longrightarrow> ends (ioCatch m h) w E K"
  by (simp add: ends_def ioCatch_def split: prod.splits sum.splits)

lemma ends_if:
  "(c \<Longrightarrow> ends m w E K) \<Longrightarrow> (\<not> c \<Longrightarrow> ends m' w E K) \<Longrightarrow> ends (if c then m else m') w E K"
  by simp

lemma ends_case_list:
  "(xs = [] \<Longrightarrow> ends m w E K) \<Longrightarrow> (\<And>y ys. xs = y # ys \<Longrightarrow> ends (f y ys) w E K) \<Longrightarrow>
   ends (case xs of [] \<Rightarrow> m | y # ys \<Rightarrow> f y ys) w E K"
  by (cases xs) simp_all

lemma ends_case_option:
  "(x = None \<Longrightarrow> ends m w E K) \<Longrightarrow> (\<And>y. x = Some y \<Longrightarrow> ends (f y) w E K) \<Longrightarrow>
   ends (case x of None \<Rightarrow> m | Some y \<Rightarrow> f y) w E K"
  by (cases x) simp_all

lemma ends_await:
  "(faults e s = None \<Longrightarrow> K () w) \<Longrightarrow> (\<And>x. faults e s = Some x \<Longrightarrow> E x w) \<Longrightarrow>
   ends (await e s) w E K"
  by (cases "faults e s") (simp_all add: ends_def await_def ioReturn_def ioThrow_def)

lemma ends_newDate:
  "K (clock e n) \<lparr>whatsappRequests = rs, storeLog = lg, replies = rp, files = fs, dateCalls = Suc n\<rparr> \<Longrightarrow>
   ends (newDate e) \<lparr>whatsappRequests = rs, storeLog = lg, replies = rp, files = fs, dateCalls = n\<rparr> E K"
  by (simp add: ends_def newDate_def)

lemma ends_updateOne:
  "(faults e s = None \<Longrightarrow>
      K () \<lparr>whatsappRequests = applyOp (UpdateOne rid flds) rs, storeLog = lg @ [UpdateOne rid flds],
            replies = rp, files = fs, dateCalls = n\<rparr>) \<Longrightarrow>
   (\<And>x. faults e s = Some x \<Longrightarrow>
      E x \<lparr>whatsappRequests = rs, storeLog = lg, replies = rp, files = fs, dateCalls = n\<rparr>) \<Longrightarrow>
   ends (updateOne e s rid flds)
     \<lparr>whatsappRequests = rs, storeLog = lg, replies = rp, files = fs, dateCalls = n\<rparr> E K"
  unfolding updateOne_def
  by (rule ends_ioBind, rule ends_await) (simp_all add: ends_def storeWrite_def)

lemma ends_insertOne:
  "(faults e s = None \<Longrightarrow>
      K (length rs) \<lparr>whatsappRequests = applyOp (InsertOne d) rs, storeLog = lg @ [InsertOne d],
            replies = rp, files = fs, dateCalls = n\<rparr>) \<Longrightarrow>
   (\<And>x. faults e s = Some x \<Longrightarrow>
      E x \<lparr>whatsappRequests = rs, storeLog = lg, replies = rp, files = fs, dateCalls = n\<rparr>) \<Longrightarrow>
   ends (insertOne e s d)
     \<lparr>whatsappRequests = rs, storeLog = lg, replies = rp, files = fs, dateCalls = n\<rparr> E K"
  unfolding insertOne_def
  by (rule ends_ioBind, rule ends_await) (simp_all add: ends_def storeWrite_def)

lemma ends_reply:
  "(faults e s = None \<Longrightarrow>
      K () \<lparr>whatsappRequests = rs, storeLog = lg, replies = rp @ [out], files = fs, dateCalls = n\<rparr>) \<Longrightarrow>
   (\<And>x. faults e s = Some x \<Longrightarrow>
      E x \<lparr>whatsappRequests = rs, storeLog = lg, replies = rp, files = fs, dateCalls = n\<rparr>) \<Longrightarrow>
   ends (reply e s out)
     \<lparr>whatsappRequests = rs, storeLog = lg, replies = rp, files = fs, dateCalls = n\<rparr> E K"
  unfolding reply_def
  by (rule ends_ioBind, rule ends_await) (simp_all add: ends_def)

lemma ends_writeFile:
  "(faults e WriteFile = None \<Longrightarrow>
      K () \<lparr>whatsappRequests = rs, storeLog = lg, replies = rp, files = AList.update p d fs,
            dateCalls = n\<rparr>) \<Longrightarrow>
   (\<And>x. faults e WriteFile = Some x \<Longrightarrow>
      E x \<lparr>whatsappRequests = rs, storeLog = lg, replies = rp, files = fs, dateCalls = n\<rparr>) \<Longrightarrow>
   ends (writeFile e p d)
     \<lparr>whatsappRequests = rs, storeLog = lg, replies = rp, files = fs, dateCalls = n\<rparr> E K"
  unfolding writeFile_def
  by (rule ends_ioBind, rule ends_await) (simp_all add: ends_def)

lemma ends_fromFilePath:
  "(\<And>d. faults e MediaFromFile = None \<Longrightarrow> map_of fs p = Some d \<Longrightarrow>
      K \<lparr>mediaFilename = basename p, mediaData = d\<rparr>
        \<lparr>whatsappRequests = rs, storeLog = lg, replies = rp, files = fs, dateCalls = n\<rparr>) \<Longrightarrow>
   (faults e MediaFromFile = None \<Longrightarrow> map_of fs p = None \<Longrightarrow>
      E (''ENOENT: no such file or directory, open '' @ [quote] @ p @ [quote])
        \<lparr>whatsappRequests = rs, storeLog = lg, replies = rp, files = fs, dateCalls = n\<rparr>) \<Longrightarrow>
   (\<And>x. faults e MediaFromFile = Some x \<Longrightarrow>
      E x \<lparr>whatsappRequests = rs, storeLog = lg, replies = rp, files = fs, dateCalls = n\<rparr>) \<Longrightarrow>
   ends (fromFilePath e p)
     \<lparr>whatsappRequests = rs, storeLog = lg, replies = rp, files = fs, dateCalls = n\<rparr> E K"
  unfolding fromFilePath_def
  by (rule ends_ioBind, rule ends_await) (auto simp: ends_def split: option.splits)

lemma ends_unlink:
  "(\<And>d. faults e Unlink = None \<Longrightarrow> map_of fs p = Some d \<Longrightarrow>
      K () \<lparr>whatsappRequests = rs, storeLog = lg, replies = rp, files = AList.delete p fs,
            dateCalls = n\<rparr>) \<Longrightarrow>
   (faults e Unlink = None \<Longrightarrow> map_of fs p = None \<Longrightarrow>
      E (''ENOENT: no such file or directory, unlink '' @ [quote] @ p @ [quote])
        \<lparr>whatsappRequests = rs, storeLog = lg, replies = rp, files = fs, dateCalls = n\<rparr>) \<Longrightarrow>
   (\<And>x. faults e Unlink = Some x \<Longrightarrow>
      E x \<lparr>whatsappRequests = rs, storeLog = lg, replies = rp, files = fs, dateCalls = n\<rparr>) \<Longrightarrow>
   ends (unlink e p)
     \<lparr>whatsappRequests = rs, storeLog = lg, replies = rp, files = fs, dateCalls = n\<rparr> E K"
  unfolding unlink_def
  by (rule ends_ioBind, rule ends_await) (auto simp: ends_def split: option.splits)

lemma ends_findLatest:
  "(faults e s = None \<Longrightarrow> K (latestStatement e) w) \<Longrightarrow>
   (\<And>x. faults e s = Some x \<Longrightarrow> E x w) \<Longrightarrow>
   ends (findLatest e s) w E K"
  unfolding findLatest_def
  by (rule ends_ioBind, rule ends_await) (simp_all add: ends_ioReturn)

lemma ends_findOneSection:
  "(faults e s = None \<Longrightarrow>
      K (find (\<lambda>r. statementId r = sid \<and> partyCode r = pc) (reportSections e)) w) \<Longrightarrow>
   (\<And>x. faults e s = Some x \<Longrightarrow> E x w) \<Longrightarrow>
   ends (findOneSection e s sid pc) w E K"
  unfolding findOneSection_def
  by (rule ends_ioBind, rule ends_await) (simp_all add: ends_ioReturn)

lemma ends_axiosPost:
  "(faults e AxiosPost = None \<Longrightarrow> K (render e pc sid) w) \<Longrightarrow>
   (\<And>x. faults e AxiosPost = Some x \<Longrightarrow> E x w) \<Longrightarrow>
   ends (axiosPost e pc sid) w E K"
  unfolding axiosPost_def
  by (rule ends_ioBind, rule ends_await) (simp_all add: ends_ioReturn)

lemma ends_findPartyByPhoneNumber:
  "(faults e FindParty = None \<Longrightarrow>
      K (find (partyMatches (map (map Lit) (searchPatterns ph))) (partyCodes e)) w) \<Longrightarrow>
   (\<And>x. faults e FindParty = Some x \<Longrightarrow> E x w) \<Longrightarrow>
   ends (findPartyByPhoneNumber e ph) w E K"
  unfolding findPartyByPhoneNumber_def those_parsePattern_escapeRegExp option.case
  by (rule ends_ioBind, rule ends_await) (simp_all add: ends_ioReturn)

lemmas ends_rules =
  ends_ioReturn ends_ioThrow ends_ioBind ends_ioCatch ends_if ends_case_list ends_case_option
  ends_newDate ends_updateOne ends_insertOne ends_reply ends_writeFile ends_fromFilePath
  ends_unlink ends_findLatest ends_findOneSection ends_axiosPost ends_findPartyByPhoneNumber

lemmas handler_defs =
  onMessage_def createRequest_def processWhatsAppRequest_def processTry_def processCatch_def
  checkForStatement_def generateAndSendStatement_def Let_def

subsection \<open>What the writes of a run set\<close>

lemma map_of_setFields:
  "map_of (setFields fs d) k = (case map_of (rev fs) k of None \<Rightarrow> map_of d k | Some v \<Rightarrow> Some v)"
proof (induction fs arbitrary: d)
  case Nil
  then show ?case by simp
next
  case (Cons kv fs)
  obtain a b where kv: "kv = (a, b)" by (cases kv)
  show ?case
    by (simp add: kv Cons update_conv' map_add_def split: option.split)
qed

lemma status_fields [simp]:
  "map_of (rev (noMatchFields t)) ''status'' = Some (Str ''NO_MATCH'')"
  "map_of (rev (matchedFields p t)) ''status'' = None"
  "map_of (rev (noStatementFields p t)) ''status'' = Some (Str ''NO_STATEMENT'')"
  "map_of (rev (failedFields m t)) ''status'' = Some (Str ''FAILED'')"
  "map_of (rev (processedFields t)) ''status'' = Some (Str ''PROCESSED'')"
  "map_of (noMatchFields t) ''status'' = Some (Str ''NO_MATCH'')"
  "map_of (matchedFields p t) ''status'' = None"
  "map_of (noStatementFields p t) ''status'' = Some (Str ''NO_STATEMENT'')"
  "map_of (failedFields m t) ''status'' = Some (Str ''FAILED'')"
  "map_of (processedFields t) ''status'' = Some (Str ''PROCESSED'')"
  "map_of (requestRecord ph txt t1 t2 t3) ''status'' = Some (Str ''RECEIVED'')"
  by (simp_all add: noMatchFields_def matchedFields_def noStatementFields_def failedFields_def
      processedFields_def requestRecord_def)

lemma updatedAt_fields [simp]:
  "map_of (noMatchFields t) ''updatedAt'' = Some (Date t)"
  "map_of (matchedFields p t) ''updatedAt'' = Some (Date t)"
  "map_of (noStatementFields p t) ''updatedAt'' = Some (Date t)"
  "map_of (failedFields m t) ''updatedAt'' = Some (Date t)"
  "map_of (processedFields t) ''updatedAt'' = Some (Date t)"
  by (simp_all add: noMatchFields_def matchedFields_def noStatementFields_def failedFields_def
      processedFields_def)

lemma statementSent_fields [simp]:
  "map_of (rev (noMatchFields t)) ''statementSent'' = None"
  "map_of (rev (matchedFields p t)) ''statementSent'' = None"
  "map_of (rev (noStatementFields p t)) ''statementSent'' = None"
  "map_of (rev (failedFields m t)) ''statementSent'' = None"
  "map_of (rev (processedFields t)) ''statementSent'' = Some (Bool True)"
  "map_of (noMatchFields t) ''statementSent'' = None"
  "map_of (matchedFields p t) ''statementSent'' = None"
  "map_of (noStatementFields p t) ''statementSent'' = None"
  "map_of (failedFields m t) ''statementSent'' = None"
  "map_of (processedFields t) ''statementSent'' = Some (Bool True)"
  "map_of (requestRecord ph txt t1 t2 t3) ''statementSent'' = None"
  by (simp_all add: noMatchFields_def matchedFields_def noStatementFields_def failedFields_def
      processedFields_def requestRecord_def)

lemma responseMessage_fields [simp]:
  "map_of (processedFields t) ''responseMessage'' = Some (Str ''Statement PDF sent successfully'')"
  "map_of (rev (processedFields t)) ''responseMessage'' = Some (Str ''Statement PDF sent successfully'')"
  "map_of (rev (failedFields m t)) ''responseMessage'' = Some (Str (''Error: '' @ m))"
  by (simp_all add: processedFields_def failedFields_def)

lemma statusWrites_simps [simp]:
  "statusWrites [] = []"
  "statusWrites (InsertOne d # ops) = statusWrites ops"
  "statusWrites (UpdateOne i f # ops) =
     (case map_of f ''status'' of None \<Rightarrow> [] | Some v \<Rightarrow> [v]) @ statusWrites ops"
  by (simp_all add: statusWrites_def)

lemma updatesWithTimestamp_simps [simp]:
  "updatesWithTimestamp rid (InsertOne d) = False"
  "updatesWithTimestamp rid (UpdateOne i f) =
     (i = rid \<and> (case map_of f ''updatedAt'' of Some (Date t) \<Rightarrow> True | _ \<Rightarrow> False))"
  by (simp_all add: updatesWithTimestamp_def)

lemma sentWriteOK_simps [simp]:
  "sentWriteOK (InsertOne d) = (map_of d ''statementSent'' = None)"
  "sentWriteOK (UpdateOne i f) =
     (map_of f ''statementSent'' = None \<or>
      (map_of f ''statementSent'' = Some (Bool True) \<and>
       map_of f ''status'' = Some (Str ''PROCESSED'') \<and>
       map_of f ''responseMessage'' = Some (Str ''Statement PDF sent successfully'')))"
  by (simp_all add: sentWriteOK_def)

lemma applyOp_simps [simp]:
  "applyOp (InsertOne d) ds = ds @ [d]"
  "applyOp (UpdateOne i f) ds = (if i < length ds then ds[i := setFields f (ds ! i)] else ds)"
  by (simp_all add: applyOp_def)

lemma world_literal:
  "\<lparr>whatsappRequests = whatsappRequests w, storeLog = storeLog w, replies = replies w,
    files = files w, dateCalls = dateCalls w\<rparr> = w"
  by simp

subsection \<open>The run along given paths\<close>

lemma recover_run:
  "recover e rid m \<lparr>whatsappRequests = rs, storeLog = lg, replies = rp, files = fs, dateCalls = n\<rparr> =
     (Inr (),
      (case faults e UpdateFailed of
         Some x \<Rightarrow>
           \<lparr>whatsappRequests = rs, storeLog = lg,
            replies = (case faults e ReplyHandlerApology of None \<Rightarrow> rp @ [apologyReply] | Some y \<Rightarrow> rp),
            files = fs, dateCalls = Suc n\<rparr>
       | None \<Rightarrow>
           \<lparr>whatsappRequests = applyOp (UpdateOne rid (failedFields m (clock e n))) rs,
            storeLog = lg @ [UpdateOne rid (failedFields m (clock e n))],
            replies =
              (case faults e ReplyApology of
                 None \<Rightarrow> rp @ [apologyReply]
               | Some x \<Rightarrow>
                   (case faults e ReplyHandlerApology of None \<Rightarrow> rp @ [apologyReply] | Some y \<Rightarrow> rp)),
            files = fs, dateCalls = Suc n\<rparr>))"
  by (simp add: recover_def processCatch_def ioCatch_def ioBind_def ioReturn_def ioThrow_def
      await_def newDate_def updateOne_def reply_def storeWrite_def split: option.split)


lemma onMessage_try_ok:
  assumes "\<not> isGroup msg"
    and "createRequest e (removeNonDigits (msgFrom msg)) (trim (body msg)) w = (Inr rid, w1)"
    and "processTry e (removeNonDigits (msgFrom msg)) rid w1 = (Inr u, w2)"
  shows "onMessage e msg w = (Inr (), w2)"
  using assms
  by (simp add: onMessage_def processWhatsAppRequest_def ioCatch_def ioBind_def Let_def)

lemma createRequest_run:
  "createRequest e ph txt \<lparr>whatsappRequests = rs, storeLog = lg, replies = rp, files = fs, dateCalls = n\<rparr> =
     (case faults e InsertRequest of
        None \<Rightarrow>
          (Inr (length rs),
           \<lparr>whatsappRequests = rs @ [requestRecord ph txt (clock e n) (clock e (Suc n)) (clock e (Suc (Suc n)))],
            storeLog = lg @ [InsertOne (requestRecord ph txt (clock e n) (clock e (Suc n)) (clock e (Suc (Suc n))))],
            replies = rp, files = fs, dateCalls = Suc (Suc (Suc n))\<rparr>)
      | Some x \<Rightarrow>
          (Inl x, \<lparr>whatsappRequests = rs, storeLog = lg, replies = rp, files = fs,
                   dateCalls = Suc (Suc (Suc n))\<rparr>))"
  by (simp add: createRequest_def ioBind_def newDate_def insertOne_def await_def ioReturn_def
      ioThrow_def storeWrite_def applyOp_def split: option.split)

text \<open>The try block on the path that reaches the sending of the statement.\<close>

lemma processTry_send_path:
  assumes "faults e FindParty = None"
    and "find (partyMatches (map (map Lit) (searchPatterns ph))) (partyCodes e) = Some p"
    and "faults e UpdateMatched = None"
    and "faults e CheckFindLatest = None"
    and "latestStatement e = st # sts"
    and "faults e CheckFindSection = None"
    and "find (\<lambda>r. statementId r = stmtId st \<and> partyCode r = code p) (reportSections e) = Some sec"
    and "faults e GenFindLatest = None"
    and "faults e GenFindSection = None"
    and "faults e AxiosPost = None"
    and "status (render e (code p) (stmtId st)) = 200"
    and "faults e WriteFile = None"
    and "faults e MediaFromFile = None"
  shows "processTry e ph rid \<lparr>whatsappRequests = rs, storeLog = lg, replies = rp, files = fs, dateCalls = n\<rparr> =
     (let matched = UpdateOne rid (matchedFields p (clock e n));
          path = tempFilePath e p (clock e (Suc n));
          pdf = respData (render e (code p) (stmtId st));
          doc = documentReply p \<lparr>mediaFilename = basename path, mediaData = pdf\<rparr>;
          rs1 = applyOp matched rs;
          lg1 = lg @ [matched];
          fs1 = AList.update path pdf fs
      in
      case faults e ReplyIntro of
        Some x \<Rightarrow>
          (Inl (''Failed to generate PDF: '' @ x),
           \<lparr>whatsappRequests = rs1, storeLog = lg1, replies = rp, files = fs1, dateCalls = Suc (Suc n)\<rparr>)
      | None \<Rightarrow>
      (case faults e ReplyDocument of
        Some x \<Rightarrow>
          (Inl (''Failed to generate PDF: '' @ x),
           \<lparr>whatsappRequests = rs1, storeLog = lg1, replies = rp @ [introReply p], files = fs1,
            dateCalls = Suc (Suc n)\<rparr>)
      | None \<Rightarrow>
      (case faults e Unlink of
        Some x \<Rightarrow>
          (Inl (''Failed to generate PDF: '' @ x),
           \<lparr>whatsappRequests = rs1, storeLog = lg1, replies = rp @ [introReply p, doc], files = fs1,
            dateCalls = Suc (Suc n)\<rparr>)
      | None \<Rightarrow>
      (case faults e UpdateProcessed of
        Some x \<Rightarrow>
          (Inl (''Failed to generate PDF: '' @ x),
           \<lparr>whatsappRequests = rs1, storeLog = lg1, replies = rp @ [introReply p, doc],
            files = AList.delete path fs1, dateCalls = Suc (Suc (Suc n))\<rparr>)
      | None \<Rightarrow>
          (Inr (),
           \<lparr>whatsappRequests = applyOp (UpdateOne rid (processedFields (clock e (Suc (Suc n))))) rs1,
            storeLog = lg1 @ [UpdateOne rid (processedFields (clock e (Suc (Suc n))))],
            replies = rp @ [introReply p, doc],
            files = AList.delete path fs1, dateCalls = Suc (Suc (Suc n))\<rparr>)))))"
  using assms
  by (simp add: processTry_def findPartyByPhoneNumber_def those_parsePattern_escapeRegExp
      checkForStatement_def generateAndSendStatement_def findLatest_def findOneSection_def
      axiosPost_def writeFile_def fromFilePath_def unlink_def reply_def updateOne_def newDate_def
      await_def storeWrite_def ioBind_def ioCatch_def ioReturn_def ioThrow_def Let_def
      update_conv' split: option.split)

lemma onMessage_run:
  assumes "\<not> isGroup msg" and "faults e InsertRequest = None"
  shows "onMessage e msg \<lparr>whatsappRequests = rs, storeLog = lg, replies = rp, files = fs, dateCalls = n\<rparr> =
     (let ph = removeNonDigits (msgFrom msg);
          d = requestRecord ph (trim (body msg)) (clock e n) (clock e (Suc n)) (clock e (Suc (Suc n)))
      in
      case processTry e ph (length rs)
             \<lparr>whatsappRequests = rs @ [d], storeLog = lg @ [InsertOne d], replies = rp, files = fs,
              dateCalls = Suc (Suc (Suc n))\<rparr> of
        (Inl m, w2) \<Rightarrow> recover e (length rs) m w2
      | (Inr u, w2) \<Rightarrow> (Inr (), w2))"
  using assms
  by (simp add: onMessage_def createRequest_run recover_def processWhatsAppRequest_def
      ioCatch_def ioBind_def Let_def split: prod.split sum.split)

lemma sample_sender: "removeNonDigits (msgFrom sampleMessage) = ''9876543210''"
  by (simp add: sampleMessage_def removeNonDigits_def isDigit_def)

lemma sample_find:
  "find (partyMatches (map (map Lit) (searchPatterns ''9876543210''))) (partyCodes (sampleEnv f)) =
     Some sampleParty"
  by (simp add: sampleEnv_def sampleParty_def partyMatches_def fieldIn_def regexTest_def
      searchFrom_literals searchPatterns_def tenDigitsAt_def isDigit_def sublist_Cons_right)

lemma stranger_sender: "removeNonDigits (msgFrom strangerMessage) = ''5550001111''"
  by (simp add: strangerMessage_def removeNonDigits_def isDigit_def)

lemma stranger_find:
  "find (partyMatches (map (map Lit) (searchPatterns ''5550001111''))) (partyCodes (sampleEnv f)) = None"
  by (simp add: sampleEnv_def sampleParty_def partyMatches_def fieldIn_def regexTest_def
      searchFrom_literals searchPatterns_def tenDigitsAt_def isDigit_def sublist_Cons_right)

lemma sample_section:
  "find (\<lambda>r. statementId r = 2 \<and> partyCode r = ''C100'') (reportSections (sampleEnv f)) =
     Some \<lparr>statementId = 2, partyCode = ''C100''\<rparr>"
  by (simp add: sampleEnv_def)

lemma sample_tempFilePath:
  "tempFilePath (sampleEnv f) sampleParty 1700000004 = ''/app/statement_C100_1700000004.pdf''"
  by (simp add: tempFilePath_def pathJoin_def normalizePath_def sampleEnv_def sampleParty_def
      decimal.simps digitChar_def)

section \<open>The outcome of a message\<close>

lemma noFaults_simp [simp]: "noFaults s = None"
  by (simp add: noFaults_def)

lemma sample_faults [simp]: "faults (sampleEnv F) = F"
  by (simp add: sampleEnv_def)

lemma sample_party_found:
  "F FindParty = None \<Longrightarrow>
   findPartyByPhoneNumber (sampleEnv F) (removeNonDigits (msgFrom sampleMessage)) emptyWorld =
     (Inr (Some sampleParty), emptyWorld)"
  by (simp add: findPartyByPhoneNumber_ok sample_sender sample_find)

lemma sample_has_section:
  "\<exists>r\<in>set (reportSections (sampleEnv F)).
      statementId r = stmtId \<lparr>stmtId = 2, statementDate = 20240229\<rparr> \<and> partyCode r = code sampleParty"
  by (simp add: sampleEnv_def sampleParty_def)

lemma sample_status:
  "status (render (sampleEnv F) (code sampleParty) (stmtId \<lparr>stmtId = 2, statementDate = 20240229\<rparr>)) = 200"
  by (simp add: sampleEnv_def sampleResponse_def)

lemma sample_values:
  "clock (sampleEnv F) 4 = 1700000004"
  "respData (render (sampleEnv F) pc sid) = ''%PDF-1.4''"
  "nameOrCode sampleParty = ''Asha 98765 43210''"
  "code sampleParty = ''C100''"
  "\<not> isGroup sampleMessage"
  "dateCalls emptyWorld = 0"
  "whatsappRequests emptyWorld = []"
  "replies emptyWorld = []"
  by (simp_all add: sampleEnv_def sampleResponse_def nameOrCode_def sampleParty_def
      sampleMessage_def emptyWorld_def)

text \<open>
  The run on the path that reaches the sending of the statement, when only the two replies
  and the removal of the scratch file may fault.
\<close>

lemma send_outcome:
  assumes fl: "faults e = noFaults(ReplyIntro := a, ReplyDocument := b, Unlink := c)"
    and grp: "\<not> isGroup msg"
    and party: "findPartyByPhoneNumber e (removeNonDigits (msgFrom msg)) w = (Inr (Some p), w)"
    and latest: "latestStatement e = st # sts"
    and sect: "\<exists>r\<in>set (reportSections e). statementId r = stmtId st \<and> partyCode r = code p"
    and ok: "status (render e (code p) (stmtId st)) = 200"
    and run: "onMessage e msg w = (r, w')"
  shows "r = Inr () \<and>
     map_of (files w') (tempFilePath e p (clock e (dateCalls w + 4))) =
       (if a = None \<and> b = None \<and> c = None then None
        else Some (respData (render e (code p) (stmtId st)))) \<and>
     map_of (whatsappRequests w' ! length (whatsappRequests w)) ''status'' =
       Some (Str (if a = None \<and> b = None \<and> c = None then ''PROCESSED'' else ''FAILED'')) \<and>
     (a = None \<and> b = None \<longrightarrow>
        (\<forall>x. c = Some x \<longrightarrow>
           map_of (whatsappRequests w' ! length (whatsappRequests w)) ''responseMessage'' =
             Some (Str (''Error: Failed to generate PDF: '' @ x)) \<and>
           replies w' = replies w @
             [introReply p,
              documentReply p
                \<lparr>mediaFilename = basename (tempFilePath e p (clock e (dateCalls w + 4))),
                 mediaData = respData (render e (code p) (stmtId st))\<rparr>,
              apologyReply]))"
proof -
  have f: "faults e InsertRequest = None" "faults e FindParty = None" "faults e UpdateMatched = None"
    "faults e CheckFindLatest = None" "faults e CheckFindSection = None"
    "faults e GenFindLatest = None" "faults e GenFindSection = None" "faults e AxiosPost = None"
    "faults e WriteFile = None" "faults e MediaFromFile = None" "faults e UpdateProcessed = None"
    "faults e UpdateFailed = None" "faults e ReplyApology = None"
    "faults e ReplyIntro = a" "faults e ReplyDocument = b" "faults e Unlink = c"
    by (simp_all add: fl)
  have found: "find (partyMatches (map (map Lit) (searchPatterns (removeNonDigits (msgFrom msg)))))
      (partyCodes e) = Some p"
    using party by (simp add: findPartyByPhoneNumber_ok f)
  obtain sec where sec:
    "find (\<lambda>r. statementId r = stmtId st \<and> partyCode r = code p) (reportSections e) = Some sec"
    using find_some [OF sect] by blast
  note path = processTry_send_path [OF f(2) found f(3) f(4) latest f(5) sec f(6) f(7) f(8) ok f(9) f(10)]
  have run': "onMessage e msg
      \<lparr>whatsappRequests = whatsappRequests w, storeLog = storeLog w, replies = replies w,
       files = files w, dateCalls = dateCalls w\<rparr> = (r, w')"
    using run by (simp only: world_literal)
  have four: "dateCalls w + 4 = Suc (Suc (Suc (Suc (dateCalls w))))" by simp
  show ?thesis
  proof (cases a)
    case (Some x)
    then show ?thesis using run'
      by (auto simp add: onMessage_run [OF grp f(1)] path f Let_def recover_run four
          update_conv' map_of_setFields)
  next
    case None
    note a = this
    show ?thesis
    proof (cases b)
      case (Some x)
      then show ?thesis using run' a
        by (auto simp add: onMessage_run [OF grp f(1)] path f Let_def recover_run four
            update_conv' map_of_setFields)
    next
      case None
      note b = this
      show ?thesis
      proof (cases c)
        case (Some x)
        then show ?thesis using run' a b
          by (auto simp add: onMessage_run [OF grp f(1)] path f Let_def recover_run four
              update_conv' map_of_setFields)
      next
        case None
        then show ?thesis using run' a b
          by (auto simp add: onMessage_run [OF grp f(1)] path f Let_def recover_run four
              delete_conv' map_of_setFields)
      qed
    qed
  qed
qed

text \<open>
  Claim C2 as the specification states it: the scratch file is removed whether or not the
  replies could be sent, and a failure of the removal does not make the run FAILED.  In
  the first run the document reply faults: the file is still in the working directory.  In
  the second run \<^verbatim>\<open>fs.unlink\<close> faults after both replies were sent: the record ends as
  FAILED.
\<close>

theorem C2_cleanup_counterexample:
  "map_of (files (snd (onMessage (sampleEnv (noFaults(ReplyDocument := Some ''socket closed'')))
       sampleMessage emptyWorld))) ''/app/statement_C100_1700000004.pdf'' = Some ''%PDF-1.4'' \<and>
   map_of (whatsappRequests (snd (onMessage (sampleEnv (noFaults(Unlink := Some ''EPERM'')))
       sampleMessage emptyWorld)) ! 0) ''status'' = Some (Str ''FAILED'')"
proof -
  have 1: "faults (sampleEnv (noFaults(ReplyDocument := Some ''socket closed''))) =
      noFaults(ReplyIntro := None, ReplyDocument := Some ''socket closed'', Unlink := None)"
    by (auto simp: fun_eq_iff)
  have 2: "faults (sampleEnv (noFaults(Unlink := Some ''EPERM''))) =
      noFaults(ReplyIntro := None, ReplyDocument := None, Unlink := Some ''EPERM'')"
    by (auto simp: fun_eq_iff)
  show ?thesis
    using send_outcome [OF 1 sample_values(5) sample_party_found sample_latestStatement
        sample_has_section sample_status prod.collapse [symmetric]]
      send_outcome [OF 2 sample_values(5) sample_party_found sample_latestStatement
        sample_has_section sample_status prod.collapse [symmetric]]
    by (simp add: sample_values sample_tempFilePath)
qed

text \<open>
  Claim C2, amended: on the path of generateAndSendStatement on which the PDF was fetched
  and written, and with no fault elsewhere, the scratch file is removed exactly when both
  replies were sent and the removal itself succeeds; it stays in the working directory when
  a reply faults.  A fault of the removal is fatal for the run: the record ends with the
  status FAILED and the message \<open>Error: Failed to generate PDF: \<close> followed by the fault's
  description, and the apology is sent after the two replies.
\<close>

theorem C2_scratch_file_cleanup:
  assumes "faults e = noFaults(ReplyIntro := a, ReplyDocument := b, Unlink := c)"
    and "\<not> isGroup msg"
    and "findPartyByPhoneNumber e (removeNonDigits (msgFrom msg)) w = (Inr (Some p), w)"
    and "latestStatement e = st # sts"
    and "\<exists>r\<in>set (reportSections e). statementId r = stmtId st \<and> partyCode r = code p"
    and "status (render e (code p) (stmtId st)) = 200"
    and "onMessage e msg w = (r, w')"
  shows "r = Inr () \<and>
     map_of (files w') (tempFilePath e p (clock e (dateCalls w + 4))) =
       (if a = None \<and> b = None \<and> c = None then None
        else Some (respData (render e (code p) (stmtId st)))) \<and>
     map_of (whatsappRequests w' ! length (whatsappRequests w)) ''status'' =
       Some (Str (if a = None \<and> b = None \<and> c = None then ''PROCESSED'' else ''FAILED'')) \<and>
     (a = None \<and> b = None \<longrightarrow>
        (\<forall>x. c = Some x \<longrightarrow>
           map_of (whatsappRequests w' ! length (whatsappRequests w)) ''responseMessage'' =
             Some (Str (''Error: Failed to generate PDF: '' @ x)) \<and>
           replies w' = replies w @
             [introReply p,
              documentReply p
                \<lparr>mediaFilename = basename (tempFilePath e p (clock e (dateCalls w + 4))),
                 mediaData = respData (render e (code p) (stmtId st))\<rparr>,
              apologyReply]))"
  using assms by (rule send_outcome)

theorem C2_scratch_file_cleanup_witness:
  "map_of (files (snd (onMessage (sampleEnv (noFaults(Unlink := Some ''EPERM''))) sampleMessage emptyWorld)))
     ''/app/statement_C100_1700000004.pdf'' = Some ''%PDF-1.4'' \<and>
   map_of (whatsappRequests (snd (onMessage (sampleEnv (noFaults(Unlink := Some ''EPERM'')))
     sampleMessage emptyWorld)) ! 0) ''responseMessage'' =
     Some (Str ''Error: Failed to generate PDF: EPERM'') \<and>
   replies (snd (onMessage (sampleEnv (noFaults(Unlink := Some ''EPERM''))) sampleMessage emptyWorld)) =
     [messageReply (TextContent ''Here is your latest statement for Asha 98765 43210:'')
        NoChatId noOptions,
      messageReply
        (MediaContent \<lparr>mediaFilename = ''statement_C100_1700000004.pdf'', mediaData = ''%PDF-1.4''\<rparr>)
        (ObjectAsChatId \<lparr>caption = Some ''Statement C100''\<rparr>) noOptions,
      messageReply
        (TextContent ''Sorry, there was an error processing your request. Please try again later.'')
        NoChatId noOptions]"
proof -
  have 2: "faults (sampleEnv (noFaults(Unlink := Some ''EPERM''))) =
      noFaults(ReplyIntro := None, ReplyDocument := None, Unlink := Some ''EPERM'')"
    by (auto simp: fun_eq_iff)
  show ?thesis
    using C2_scratch_file_cleanup [OF 2 sample_values(5) sample_party_found sample_latestStatement
        sample_has_section sample_status prod.collapse [symmetric]]
    by (simp add: sample_values sample_tempFilePath introReply_def documentReply_def
        apologyReply_def apology_def basename_def)
qed

subsection \<open>Every path through the handler\<close>

text \<open>
  Whatever the store, the message and the faults are: the handler returns, the writes it
  sent to the collection are the insertion and then updates of the inserted document, and
  the collection is what these writes make of it.
\<close>

lemma onMessage_all_paths:
  "ends (onMessage e msg)
     \<lparr>whatsappRequests = rs, storeLog = lg, replies = rp, files = fs, dateCalls = n\<rparr>
     (\<lambda>x w'. False)
     (\<lambda>a w'.
        (\<exists>ops. storeLog w' = lg @ ops \<and>
           whatsappRequests w' = foldl (\<lambda>ds op. applyOp op ds) rs ops \<and>
           list_all sentWriteOK ops \<and>
           (ops = [] \<or>
            (\<exists>d us. ops = InsertOne d # us \<and>
               map_of d ''status'' = Some (Str ''RECEIVED'') \<and>
               list_all (updatesWithTimestamp (length rs)) us \<and>
               statusWrites us \<in>
                 {[], [Str ''NO_MATCH''], [Str ''NO_STATEMENT''], [Str ''PROCESSED''], [Str ''FAILED''],
                  [Str ''NO_MATCH'', Str ''FAILED''], [Str ''NO_STATEMENT'', Str ''FAILED'']} \<and>
               (faults e ReplyNoMatch = None \<and> faults e ReplyNoStatement = None \<longrightarrow>
                  length (statusWrites us) \<le> 1)))) \<and>
        length rs \<le> length (whatsappRequests w') \<and>
        ((\<forall>d\<in>set rs. sentIsProcessed d) \<longrightarrow> (\<forall>d\<in>set (whatsappRequests w'). sentIsProcessed d)))"
  unfolding handler_defs
  by (rule ends_rules | (simp add: sentIsProcessed_def map_of_setFields; fail))+

lemma onMessage_summary:
  assumes run: "onMessage e msg w = (r, w')"
  shows "r = Inr () \<and>
     (\<exists>ops. storeLog w' = storeLog w @ ops \<and>
        whatsappRequests w' = foldl (\<lambda>ds op. applyOp op ds) (whatsappRequests w) ops \<and>
        list_all sentWriteOK ops \<and>
        (ops = [] \<or>
         (\<exists>d us. ops = InsertOne d # us \<and>
            map_of d ''status'' = Some (Str ''RECEIVED'') \<and>
            list_all (updatesWithTimestamp (length (whatsappRequests w))) us \<and>
            statusWrites us \<in>
              {[], [Str ''NO_MATCH''], [Str ''NO_STATEMENT''], [Str ''PROCESSED''], [Str ''FAILED''],
               [Str ''NO_MATCH'', Str ''FAILED''], [Str ''NO_STATEMENT'', Str ''FAILED'']} \<and>
            (faults e ReplyNoMatch = None \<and> faults e ReplyNoStatement = None \<longrightarrow>
               length (statusWrites us) \<le> 1)))) \<and>
     length (whatsappRequests w) \<le> length (whatsappRequests w') \<and>
     ((\<forall>d\<in>set (whatsappRequests w). sentIsProcessed d) \<longrightarrow>
        (\<forall>d\<in>set (whatsappRequests w'). sentIsProcessed d))"
proof -
  note all = onMessage_all_paths
    [of e msg "whatsappRequests w" "storeLog w" "replies w" "files w" "dateCalls w"]
  show ?thesis
    using endsD [OF all [unfolded world_literal] run] by (cases r) simp_all
qed



subsection \<open>The life of a request document\<close>

lemma processTry_no_match:
  assumes "faults e FindParty = None"
    and "find (partyMatches (map (map Lit) (searchPatterns ph))) (partyCodes e) = None"
    and "faults e UpdateNoMatch = None"
  shows "processTry e ph rid \<lparr>whatsappRequests = rs, storeLog = lg, replies = rp, files = fs, dateCalls = n\<rparr> =
     (case faults e ReplyNoMatch of
        Some x \<Rightarrow>
          (Inl x,
           \<lparr>whatsappRequests = applyOp (UpdateOne rid (noMatchFields (clock e n))) rs,
            storeLog = lg @ [UpdateOne rid (noMatchFields (clock e n))],
            replies = rp, files = fs, dateCalls = Suc n\<rparr>)
      | None \<Rightarrow>
          (Inr (),
           \<lparr>whatsappRequests = applyOp (UpdateOne rid (noMatchFields (clock e n))) rs,
            storeLog = lg @ [UpdateOne rid (noMatchFields (clock e n))],
            replies = rp @ [noMatchReply], files = fs, dateCalls = Suc n\<rparr>))"
  using assms
  by (simp add: processTry_def findPartyByPhoneNumber_def those_parsePattern_escapeRegExp
      reply_def updateOne_def newDate_def await_def storeWrite_def ioBind_def ioReturn_def
      ioThrow_def split: option.split)


text \<open>
  Claim C8 as the specification states it: after RECEIVED the status is mutated at most
  once.  A sender that matches no party gets the status NO_MATCH; when the reply that
  follows faults, the \<^verbatim>\<open>catch\<close> block writes FAILED over it: two mutations in one run.
\<close>

theorem C8_second_status_counterexample:
  "statusWrites (storeLog (snd (onMessage (sampleEnv (noFaults(ReplyNoMatch := Some ''socket closed'')))
      strangerMessage emptyWorld))) = [Str ''NO_MATCH'', Str ''FAILED''] \<and>
   map_of (whatsappRequests (snd (onMessage (sampleEnv (noFaults(ReplyNoMatch := Some ''socket closed'')))
      strangerMessage emptyWorld)) ! 0) ''status'' = Some (Str ''FAILED'')"
proof -
  have g: "\<not> isGroup strangerMessage" by (simp add: strangerMessage_def)
  have f: "faults (sampleEnv (noFaults(ReplyNoMatch := Some ''socket closed''))) InsertRequest = None"
    by simp
  show ?thesis
    by (simp add: emptyWorld_def onMessage_run [OF g f] Let_def stranger_sender
        processTry_no_match stranger_find recover_run map_of_setFields)
qed

lemma sample_text: "trim (body sampleMessage) = ''statement''"
  by (simp add: sampleMessage_def trim_def isWhiteSpace_def)

lemma sample_clock: "clock (sampleEnv F) n = 1700000000 + n"
  by (simp add: sampleEnv_def)

text \<open>The sample message in the sample store, when nothing faults.\<close>

lemma sample_run:
  "onMessage (sampleEnv noFaults) sampleMessage emptyWorld =
     (Inr (),
      \<lparr>whatsappRequests =
         [setFields (processedFields 1700000005)
           (setFields (matchedFields sampleParty 1700000003)
             (requestRecord ''9876543210'' ''statement'' 1700000000 1700000001 1700000002))],
       storeLog =
         [InsertOne (requestRecord ''9876543210'' ''statement'' 1700000000 1700000001 1700000002),
          UpdateOne 0 (matchedFields sampleParty 1700000003),
          UpdateOne 0 (processedFields 1700000005)],
       replies =
         [introReply sampleParty,
          documentReply sampleParty
            \<lparr>mediaFilename = ''statement_C100_1700000004.pdf'', mediaData = ''%PDF-1.4''\<rparr>],
       files = [],
       dateCalls = 6\<rparr>)"
proof -
  have f: "\<And>s. faults (sampleEnv noFaults) s = None" by simp
  have sec: "find (\<lambda>r. statementId r = stmtId \<lparr>stmtId = 2, statementDate = 20240229\<rparr> \<and>
        partyCode r = code sampleParty) (reportSections (sampleEnv noFaults)) =
      Some \<lparr>statementId = 2, partyCode = ''C100''\<rparr>"
    by (simp add: sampleEnv_def sampleParty_def)
  note path = processTry_send_path
    [OF f sample_find f f sample_latestStatement f sec f f f sample_status f f]
  show ?thesis
    by (simp add: emptyWorld_def onMessage_run [OF sample_values(5) f] Let_def sample_sender
        sample_text path sample_clock sample_values sample_tempFilePath basename_def)
qed

text \<open>
  Claim C8, amended: the request document is inserted with the status RECEIVED; every later
  write of the run is an update of that document which sets \<^verbatim>\<open>updatedAt\<close>; the status is
  written at most once more, to NO_MATCH, NO_STATEMENT, PROCESSED or FAILED, unless the
  reply that follows a NO_MATCH or NO_STATEMENT write faults: then FAILED is written over it
  as a second and last mutation.  PROCESSED and FAILED are never overwritten, and no
  document is removed from the collection.
\<close>

theorem C8_status_lifecycle:
  assumes "onMessage e msg w = (r, w')"
  shows "(\<exists>ops. storeLog w' = storeLog w @ ops \<and>
        whatsappRequests w' = foldl (\<lambda>ds op. applyOp op ds) (whatsappRequests w) ops \<and>
        (ops = [] \<or>
         (\<exists>d us. ops = InsertOne d # us \<and>
            map_of d ''status'' = Some (Str ''RECEIVED'') \<and>
            list_all (updatesWithTimestamp (length (whatsappRequests w))) us \<and>
            statusWrites us \<in>
              {[], [Str ''NO_MATCH''], [Str ''NO_STATEMENT''], [Str ''PROCESSED''], [Str ''FAILED''],
               [Str ''NO_MATCH'', Str ''FAILED''], [Str ''NO_STATEMENT'', Str ''FAILED'']} \<and>
            (faults e ReplyNoMatch = None \<and> faults e ReplyNoStatement = None \<longrightarrow>
               length (statusWrites us) \<le> 1)))) \<and>
     length (whatsappRequests w) \<le> length (whatsappRequests w')"
  using onMessage_summary [OF assms] by blast

theorem C8_status_lifecycle_witness:
  "faults (sampleEnv noFaults) ReplyNoMatch = None \<and>
   faults (sampleEnv noFaults) ReplyNoStatement = None \<and>
   statusWrites (tl (storeLog (snd (onMessage (sampleEnv noFaults) sampleMessage emptyWorld)))) =
     [Str ''PROCESSED''] \<and>
   list_all (updatesWithTimestamp 0)
     (tl (storeLog (snd (onMessage (sampleEnv noFaults) sampleMessage emptyWorld)))) \<and>
   length (whatsappRequests (snd (onMessage (sampleEnv noFaults) sampleMessage emptyWorld))) = 1"
  using C8_status_lifecycle [OF prod.collapse [symmetric], of "sampleEnv noFaults" sampleMessage emptyWorld]
  by (simp add: sample_run)

text \<open>
  Claim C10: a write of the run sets \<^verbatim>\<open>statementSent\<close> only together with the status
  PROCESSED and the fixed success message, and sets it to true; the NO_MATCH, NO_STATEMENT
  and FAILED updates and the intermediate update do not mention it.  So when every document
  of the collection with \<^verbatim>\<open>statementSent\<close> true has the status PROCESSED before a
  message is handled, the same holds afterwards.
\<close>

theorem C10_statementSent_only_with_processed:
  assumes "onMessage e msg w = (r, w')"
  shows "(\<exists>ops. storeLog w' = storeLog w @ ops \<and> list_all sentWriteOK ops) \<and>
     map_of (noMatchFields t) ''statementSent'' = None \<and>
     map_of (noStatementFields p t) ''statementSent'' = None \<and>
     map_of (failedFields m t) ''statementSent'' = None \<and>
     map_of (matchedFields p t) ''statementSent'' = None \<and>
     map_of (processedFields t) ''statementSent'' = Some (Bool True) \<and>
     map_of (processedFields t) ''status'' = Some (Str ''PROCESSED'') \<and>
     map_of (processedFields t) ''responseMessage'' = Some (Str ''Statement PDF sent successfully'') \<and>
     ((\<forall>d\<in>set (whatsappRequests w). sentIsProcessed d) \<longrightarrow>
        (\<forall>d\<in>set (whatsappRequests w'). sentIsProcessed d))"
  using onMessage_summary [OF assms] by simp blast

theorem C10_statementSent_only_with_processed_witness:
  "list_all sentWriteOK (storeLog (snd (onMessage (sampleEnv noFaults) sampleMessage emptyWorld))) \<and>
   map_of (hd (whatsappRequests (snd (onMessage (sampleEnv noFaults) sampleMessage emptyWorld))))
     ''statementSent'' = Some (Bool True) \<and>
   sentIsProcessed (hd (whatsappRequests (snd (onMessage (sampleEnv noFaults) sampleMessage emptyWorld))))"
  using C10_statementSent_only_with_processed
    [OF prod.collapse [symmetric], of "sampleEnv noFaults" sampleMessage emptyWorld]
  by (simp add: sample_run sample_values sentIsProcessed_def map_of_setFields)

subsection \<open>The document reply\<close>

text \<open>
  Claim C7: when the sender matches a customer record, the most recent statement has a
  ReportSection for its key and the rendering service answers with status 200 and bytes,
  the record ends as PROCESSED with \<^verbatim>\<open>statementSent\<close> true, and the sender receives the
  introductory text and then the document with a caption naming the customer key.  In the
  sample run nothing faults and the record ends as claimed, and the text goes to the chat
  of the sender; but in the call for the document the object with the caption is the
  second argument of \<^verbatim>\<open>reply\<close>, which is the chat to send to: what is handed to the
  transport has no caption and is not addressed to the chat of the sender.
\<close>

theorem C7_document_reply_without_caption:
  "fst (onMessage (sampleEnv noFaults) sampleMessage emptyWorld) = Inr () \<and>
   map_of (hd (whatsappRequests (snd (onMessage (sampleEnv noFaults) sampleMessage emptyWorld))))
     ''status'' = Some (Str ''PROCESSED'') \<and>
   map_of (hd (whatsappRequests (snd (onMessage (sampleEnv noFaults) sampleMessage emptyWorld))))
     ''statementSent'' = Some (Bool True) \<and>
   replies (snd (onMessage (sampleEnv noFaults) sampleMessage emptyWorld)) =
     [\<lparr>sentTo = SenderChat,
       sentContent = TextContent ''Here is your latest statement for Asha 98765 43210:'',
       sentOptions = \<lparr>caption = None\<rparr>\<rparr>,
      \<lparr>sentTo = NotAChat \<lparr>caption = Some ''Statement C100''\<rparr>,
       sentContent =
         MediaContent \<lparr>mediaFilename = ''statement_C100_1700000004.pdf'', mediaData = ''%PDF-1.4''\<rparr>,
       sentOptions = \<lparr>caption = None\<rparr>\<rparr>]"
  by (simp add: sample_run map_of_setFields introReply_def documentReply_def messageReply_def
      noOptions_def sample_values)

subsection \<open>A fault after the record was created\<close>






end
